theory Spec2Isabelle
  imports Complex_Main "HOL-Library.Word"
begin

section \<open>JavaScript numbers\<close>

text \<open>
  A JavaScript Number is modelled as an exact real number, extended with the two
  infinities and NaN that the arithmetic of \<^verbatim>\<open>game-engine.js\<close> can produce (a division by
  zero gives an infinity, not an exception). Rounding to 64-bit precision and the sign
  of zero are not represented.
\<close>

datatype jsnum = Fin real | PosInf | NegInf | NaN

text \<open>The operator \<^verbatim>\<open>/\<close>.\<close>

fun js_div :: "jsnum \<Rightarrow> jsnum \<Rightarrow> jsnum" where
  "js_div NaN _ = NaN"
| "js_div _ NaN = NaN"
| "js_div (Fin a) (Fin b) =
     (if b = 0 then (if 0 < a then PosInf else if a < 0 then NegInf else NaN)
      else Fin (a / b))"
| "js_div (Fin a) PosInf = Fin 0"
| "js_div (Fin a) NegInf = Fin 0"
| "js_div PosInf (Fin b) = (if b < 0 then NegInf else PosInf)"
| "js_div NegInf (Fin b) = (if b < 0 then PosInf else NegInf)"
| "js_div PosInf PosInf = NaN"
| "js_div PosInf NegInf = NaN"
| "js_div NegInf PosInf = NaN"
| "js_div NegInf NegInf = NaN"

text \<open>The operator \<^verbatim>\<open>*\<close>.\<close>

fun js_mul :: "jsnum \<Rightarrow> jsnum \<Rightarrow> jsnum" where
  "js_mul NaN _ = NaN"
| "js_mul _ NaN = NaN"
| "js_mul (Fin a) (Fin b) = Fin (a * b)"
| "js_mul (Fin a) PosInf = (if 0 < a then PosInf else if a < 0 then NegInf else NaN)"
| "js_mul (Fin a) NegInf = (if 0 < a then NegInf else if a < 0 then PosInf else NaN)"
| "js_mul PosInf (Fin b) = (if 0 < b then PosInf else if b < 0 then NegInf else NaN)"
| "js_mul NegInf (Fin b) = (if 0 < b then NegInf else if b < 0 then PosInf else NaN)"
| "js_mul PosInf PosInf = PosInf"
| "js_mul PosInf NegInf = NegInf"
| "js_mul NegInf PosInf = NegInf"
| "js_mul NegInf NegInf = PosInf"

text \<open>\<^verbatim>\<open>Math.pow(base, exponent)\<close>, by the cases of the language standard.\<close>

definition isOddInteger :: "real \<Rightarrow> bool" where
  "isOddInteger y = (of_int \<lfloor>y\<rfloor> = y \<and> odd \<lfloor>y\<rfloor>)"

fun js_pow :: "jsnum \<Rightarrow> jsnum \<Rightarrow> jsnum" where
  "js_pow _ NaN = NaN"
| "js_pow b (Fin y) =
     (if y = 0 then Fin 1
      else case b of
        NaN \<Rightarrow> NaN
      | PosInf \<Rightarrow> (if 0 < y then PosInf else Fin 0)
      | NegInf \<Rightarrow> (if 0 < y then (if isOddInteger y then NegInf else PosInf) else Fin 0)
      | Fin x \<Rightarrow>
          (if x = 0 then (if 0 < y then Fin 0 else PosInf)
           else if 0 < x then Fin (x powr y)
           else if of_int \<lfloor>y\<rfloor> = y then Fin (power_int x \<lfloor>y\<rfloor>)
           else NaN))"
| "js_pow b PosInf =
     (case b of
        NaN \<Rightarrow> NaN
      | PosInf \<Rightarrow> PosInf
      | NegInf \<Rightarrow> PosInf
      | Fin x \<Rightarrow> (if 1 < \<bar>x\<bar> then PosInf else if \<bar>x\<bar> = 1 then NaN else Fin 0))"
| "js_pow b NegInf =
     (case b of
        NaN \<Rightarrow> NaN
      | PosInf \<Rightarrow> Fin 0
      | NegInf \<Rightarrow> Fin 0
      | Fin x \<Rightarrow> (if 1 < \<bar>x\<bar> then Fin 0 else if \<bar>x\<bar> = 1 then NaN else PosInf))"

text \<open>\<^verbatim>\<open>Math.floor\<close> and \<^verbatim>\<open>Math.round\<close> (the latter rounds halves up).\<close>

fun js_floor :: "jsnum \<Rightarrow> jsnum" where
  "js_floor (Fin a) = Fin (of_int \<lfloor>a\<rfloor>)"
| "js_floor x = x"

fun js_round :: "jsnum \<Rightarrow> jsnum" where
  "js_round (Fin a) = Fin (of_int \<lfloor>a + 1 / 2\<rfloor>)"
| "js_round x = x"

text \<open>\<^verbatim>\<open>Math.min\<close> and \<^verbatim>\<open>Math.max\<close> of two arguments: NaN when either is NaN.\<close>

fun js_min :: "jsnum \<Rightarrow> jsnum \<Rightarrow> jsnum" where
  "js_min NaN _ = NaN"
| "js_min _ NaN = NaN"
| "js_min NegInf _ = NegInf"
| "js_min _ NegInf = NegInf"
| "js_min PosInf y = y"
| "js_min x PosInf = x"
| "js_min (Fin a) (Fin b) = Fin (min a b)"

fun js_max :: "jsnum \<Rightarrow> jsnum \<Rightarrow> jsnum" where
  "js_max NaN _ = NaN"
| "js_max _ NaN = NaN"
| "js_max PosInf _ = PosInf"
| "js_max _ PosInf = PosInf"
| "js_max NegInf y = y"
| "js_max x NegInf = x"
| "js_max (Fin a) (Fin b) = Fin (max a b)"

text \<open>The comparison \<^verbatim>\<open>a >= b\<close>: false when either side is NaN.\<close>

fun js_ge :: "jsnum \<Rightarrow> jsnum \<Rightarrow> bool" where
  "js_ge NaN _ = False"
| "js_ge _ NaN = False"
| "js_ge PosInf _ = True"
| "js_ge _ NegInf = True"
| "js_ge NegInf _ = False"
| "js_ge _ PosInf = False"
| "js_ge (Fin a) (Fin b) = (b \<le> a)"


section \<open>The data model\<close>

text \<open>
  The values of \<^verbatim>\<open>gameState\<close> and of a round's \<^verbatim>\<open>status\<close> (the enum of
  \<^verbatim>\<open>game-round.model.js\<close>).
\<close>

datatype status = Waiting | Betting | Active | Crashed | Completed

fun statusString :: "status \<Rightarrow> string" where
  "statusString Waiting = ''waiting''"
| "statusString Betting = ''betting''"
| "statusString Active = ''active''"
| "statusString Crashed = ''crashed''"
| "statusString Completed = ''completed''"

text \<open>
  An \<^verbatim>\<open>ObjectId\<close> is an opaque identity (its \<^verbatim>\<open>toString()\<close> is injective); a date is a
  number of milliseconds.
\<close>

type_synonym objectId = nat
type_synonym timestamp = int

text \<open>An element of \<^verbatim>\<open>activeBets\<close>.\<close>

record bet =
  betSessionId :: string
  betPlayerName :: string
  betUsdAmount :: real
  betCryptoAmount :: real
  betCryptocurrency :: string
  cashedOut :: bool
  cashoutMultiplier :: "real option"
  cashoutTime :: "timestamp option"
  betTime :: timestamp

text \<open>The object a session keeps in \<^verbatim>\<open>currentBet\<close>.\<close>

record current_bet =
  roundId :: objectId
  usdAmount :: real
  cryptoAmount :: real
  cryptocurrency :: string
  priceAtBet :: real
  isActive :: bool

record session =
  sessionId :: string
  playerName :: string
  balance :: real
  totalBets :: nat
  totalWins :: nat
  totalWinnings :: real
  currentBet :: "current_bet option"
  joinedAt :: timestamp

text \<open>A \<^verbatim>\<open>GameRound\<close> document; \<open>oid\<close> is its \<^verbatim>\<open>_id\<close>, \<open>roundTotalBets\<close> its \<^verbatim>\<open>totalBets\<close>.\<close>

record game_round =
  oid :: objectId
  roundNumber :: nat
  seed :: string
  hash :: string
  crashPoint :: jsnum
  status :: status
  startTime :: "timestamp option"
  crashTime :: "timestamp option"
  roundTotalBets :: real
  totalPlayers :: nat
  activeBets :: "bet list"

text \<open>
  The state of \<^verbatim>\<open>GameEngineService\<close>. The two timer handles are not part of it: the
  calls a timer makes (\<^verbatim>\<open>updateMultiplier\<close>, \<^verbatim>\<open>resetForNewRound\<close>) are operations of
  their own below.
\<close>

record engine =
  currentRound :: "game_round option"
  roundCounter :: nat
  multiplier :: real
  gameState :: status
  engineStartTime :: "timestamp option"
  initialized :: bool
  sessions :: "string \<rightharpoonup> session"

text \<open>The constructor.\<close>

definition newEngine :: engine where
  "newEngine = \<lparr>currentRound = None, roundCounter = 1, multiplier = 1, gameState = Waiting,
     engineStartTime = None, initialized = False, sessions = Map.empty\<rparr>"

text \<open>
  The exceptions. The source throws plain \<^verbatim>\<open>Error\<close> objects; the constructor says which
  \<^verbatim>\<open>throw\<close> raised it, with the message where it is a fixed text. \<open>InsufficientFundsError\<close>
  carries the two numbers its message prints (the balance and the amount asked),
  \<open>PriceError\<close> the currency, \<open>TypeError\<close> is a property read on \<^verbatim>\<open>null\<close>, and
  \<open>WriteError\<close> is what a rejected \<^verbatim>\<open>save()\<close> of the round throws.
\<close>

datatype error =
    StateError string
  | DuplicateBetError string
  | InsufficientFundsError real real
  | NotFoundError string
  | PriceError string
  | TypeError
  | ValidationError string
  | WriteError

section \<open>The outside world\<close>

text \<open>
  What \<^verbatim>\<open>getCurrentPrices()\<close> resolves to: the cache, the request and the fallback
  prices of \<^verbatim>\<open>crypto-service.js\<close> are behind this table.
\<close>

record prices =
  BTC :: real
  ETH :: real
  BNB :: real
  ADA :: real
  pricesTimestamp :: timestamp

text \<open>What the first query of \<^verbatim>\<open>initialize()\<close> finds in the round store.\<close>

datatype db_latest = DbError | DbEmpty | DbLatest nat

text \<open>
  Everything one call reads from outside the engine: the clock, the round store, the
  random bytes and the \<^verbatim>\<open>_id\<close> of a round it creates, and the price table. Writes to
  the round store (\<^verbatim>\<open>save()\<close>) are taken to succeed.
\<close>

record world =
  w_now :: timestamp
  w_db :: db_latest
  w_randomHex :: string
  w_oid :: objectId
  w_prices :: prices

section \<open>The provably fair crash point\<close>

text \<open>\<^verbatim>\<open>Number.prototype.toString()\<close> of a round counter: its decimal digits.\<close>

fun decimalString :: "nat \<Rightarrow> string" where
  "decimalString n =
     (if n < 10 then [char_of (48 + n)]
      else decimalString (n div 10) @ [char_of (48 + n mod 10)])"

declare decimalString.simps [simp del]

text \<open>
  SHA-256 belongs to the runtime (\<^verbatim>\<open>node:crypto\<close>), not to the repository: it is a
  parameter \<open>sha256\<close> of the model, a function from the hashed text to the 256-bit
  digest. \<^verbatim>\<open>digest('hex')\<close> writes the digest as 64 lowercase hexadecimal digits, the
  most significant first.
\<close>

type_synonym digest = "256 word"

definition hexDigit :: "nat \<Rightarrow> char" where
  "hexDigit n = ''0123456789abcdef'' ! (n mod 16)"

definition digestHex :: "digest \<Rightarrow> string" where
  "digestHex w = map (\<lambda>i. hexDigit (unat (drop_bit (4 * (63 - i)) w) mod 16)) [0..<64]"

text \<open>
  \<^verbatim>\<open>parseInt(s, 16)\<close>: the value of the longest prefix of hexadecimal digits, NaN when
  there is none. (Leading white space, a sign and a \<^verbatim>\<open>0x\<close> prefix, which
  \<^verbatim>\<open>parseInt\<close> also accepts, do not occur in a hexadecimal digest and are not modelled.)
\<close>

definition isHexDigit :: "char \<Rightarrow> bool" where
  "isHexDigit c = (let k = (of_char c :: nat) in
     (48 \<le> k \<and> k \<le> 57) \<or> (97 \<le> k \<and> k \<le> 102) \<or> (65 \<le> k \<and> k \<le> 70))"

definition hexValue :: "char \<Rightarrow> nat" where
  "hexValue c = (let k = (of_char c :: nat) in
     if k \<le> 57 then k - 48 else if 97 \<le> k then k - 87 else k - 55)"

definition parseInt16 :: "string \<Rightarrow> jsnum" where
  "parseInt16 s = (let ds = takeWhile isHexDigit s in
     if ds = [] then NaN else Fin (real (foldl (\<lambda>a c. 16 * a + hexValue c) 0 ds)))"

text \<open>
  Lines 79 to 88 of \<^verbatim>\<open>generateProvablyFairCrash\<close>: the crash point as a function of
  \<^verbatim>\<open>hashInt\<close>.
\<close>

definition crashPointOfHashInt :: "jsnum \<Rightarrow> jsnum" where
  "crashPointOfHashInt hashInt =
     (let e = (2.718281828 :: real);
          crashPoint =
            js_div
              (js_floor
                (js_div (Fin (100 * e - 100))
                  (js_pow (js_div hashInt (js_pow (Fin 2) (Fin 52))) (Fin (1 / 3)))))
              (Fin 100);
          finalCrashPoint = js_max (Fin 1.01) (js_min (Fin 120) crashPoint)
      in js_div (js_round (js_mul finalCrashPoint (Fin 100))) (Fin 100))"

record fair_crash =
  fc_seed :: string
  fc_hash :: string
  fc_crashPoint :: jsnum
  fc_seedWithRound :: string

text \<open>
  \<^verbatim>\<open>generateProvablyFairCrash()\<close>. It reads \<^verbatim>\<open>this.roundCounter\<close> and draws
  \<^verbatim>\<open>crypto.randomBytes(32).toString('hex')\<close>, here the argument \<open>randomHex\<close>.
\<close>

definition generateProvablyFairCrash :: "(string \<Rightarrow> digest) \<Rightarrow> engine \<Rightarrow> string \<Rightarrow> fair_crash" where
  "generateProvablyFairCrash sha256 g randomHex =
     (let seed = randomHex;
          seedWithRound = seed @ decimalString (roundCounter g);
          hash = digestHex (sha256 seedWithRound);
          hashInt = parseInt16 (take 13 hash)
      in \<lparr>fc_seed = seed, fc_hash = hash,
          fc_crashPoint = crashPointOfHashInt hashInt,
          fc_seedWithRound = seedWithRound\<rparr>)"

section \<open>The price conversions\<close>

definition cryptoMapping :: "string \<Rightarrow> string option" where
  "cryptoMapping c =
     (if c = ''bitcoin'' then Some ''BTC''
      else if c = ''ethereum'' then Some ''ETH''
      else if c = ''binancecoin'' then Some ''BNB''
      else if c = ''cardano'' then Some ''ADA''
      else if c = ''BTC'' then Some ''BTC''
      else if c = ''ETH'' then Some ''ETH''
      else if c = ''BNB'' then Some ''BNB''
      else if c = ''ADA'' then Some ''ADA''
      else None)"

text \<open>\<^verbatim>\<open>String.prototype.toUpperCase\<close>, on ASCII letters.\<close>

definition toUpperChar :: "char \<Rightarrow> char" where
  "toUpperChar c = (let k = (of_char c :: nat) in
     if 97 \<le> k \<and> k \<le> 122 then char_of (k - 32) else c)"

definition toUpperCase :: "string \<Rightarrow> string" where
  "toUpperCase s = map toUpperChar s"

text \<open>\<^verbatim>\<open>prices[cryptoSymbol]\<close> for an upper-case symbol.\<close>

definition priceOf :: "prices \<Rightarrow> string \<Rightarrow> real option" where
  "priceOf p symbol =
     (if symbol = ''BTC'' then Some (BTC p)
      else if symbol = ''ETH'' then Some (ETH p)
      else if symbol = ''BNB'' then Some (BNB p)
      else if symbol = ''ADA'' then Some (ADA p)
      else None)"

definition cryptoSymbolOf :: "string \<Rightarrow> string" where
  "cryptoSymbolOf c = (case cryptoMapping c of Some symbol \<Rightarrow> symbol | None \<Rightarrow> toUpperCase c)"

record crypto_conversion =
  conv_cryptoAmount :: real
  conv_priceAtTime :: real
  conv_timestamp :: timestamp

record usd_conversion =
  conv_usdAmount :: real
  usd_priceAtTime :: real
  usd_timestamp :: timestamp

text \<open>
  \<^verbatim>\<open>convertUsdToCrypto\<close> and \<^verbatim>\<open>convertCryptoToUsd\<close>, on the price table the call
  obtained; \<^verbatim>\<open>!cryptoPrice\<close> holds for a missing price and for 0.
\<close>

definition convertUsdToCrypto :: "prices \<Rightarrow> real \<Rightarrow> string \<Rightarrow> error + crypto_conversion" where
  "convertUsdToCrypto p usd c =
     (case priceOf p (cryptoSymbolOf c) of
        None \<Rightarrow> Inl (PriceError c)
      | Some cryptoPrice \<Rightarrow>
          if cryptoPrice = 0 then Inl (PriceError c)
          else Inr \<lparr>conv_cryptoAmount = usd / cryptoPrice, conv_priceAtTime = cryptoPrice,
                    conv_timestamp = pricesTimestamp p\<rparr>)"

definition convertCryptoToUsd :: "prices \<Rightarrow> real \<Rightarrow> string \<Rightarrow> error + usd_conversion" where
  "convertCryptoToUsd p amount c =
     (case priceOf p (cryptoSymbolOf c) of
        None \<Rightarrow> Inl (PriceError c)
      | Some cryptoPrice \<Rightarrow>
          if cryptoPrice = 0 then Inl (PriceError c)
          else Inr \<lparr>conv_usdAmount = amount * cryptoPrice, usd_priceAtTime = cryptoPrice,
                    usd_timestamp = pricesTimestamp p\<rparr>)"

section \<open>Sessions and rounds\<close>

definition givenName :: "string option \<Rightarrow> string option" where
  "givenName pn =
     (case pn of None \<Rightarrow> None | Some n \<Rightarrow> if n = [] then None else Some n)"

text \<open>
  \<^verbatim>\<open>getSession(sessionId, playerName = null)\<close>: creates the session on first use, and
  stores a name that is given (a non-empty string) also on an existing session.
\<close>

definition getSession :: "engine \<Rightarrow> timestamp \<Rightarrow> string \<Rightarrow> string option \<Rightarrow> session \<times> engine" where
  "getSession g now sid pn =
     (case sessions g sid of
        None \<Rightarrow>
          let s = \<lparr>sessionId = sid,
                   playerName = (case givenName pn of
                                   Some n \<Rightarrow> n
                                 | None \<Rightarrow> ''Player_'' @ drop (length sid - 6) sid),
                   balance = 1000, totalBets = 0, totalWins = 0, totalWinnings = 0,
                   currentBet = None, joinedAt = now\<rparr>
          in (s, g\<lparr>sessions := (sessions g)(sid \<mapsto> s)\<rparr>)
      | Some s \<Rightarrow>
          (case givenName pn of
             None \<Rightarrow> (s, g)
           | Some n \<Rightarrow>
               let s' = s\<lparr>playerName := n\<rparr>
               in (s', g\<lparr>sessions := (sessions g)(sid \<mapsto> s')\<rparr>)))"

text \<open>
  \<^verbatim>\<open>initialize()\<close>: once, the round counter is set from the round store; a failed
  query leaves it at 1.
\<close>

definition initialize :: "engine \<Rightarrow> db_latest \<Rightarrow> engine" where
  "initialize g db =
     (if initialized g then g
      else case db of
        DbLatest n \<Rightarrow> g\<lparr>roundCounter := n + 1, initialized := True\<rparr>
      | DbEmpty \<Rightarrow> g\<lparr>roundCounter := 1, initialized := True\<rparr>
      | DbError \<Rightarrow> g\<lparr>roundCounter := 1, initialized := True\<rparr>)"

text \<open>
  \<^verbatim>\<open>createNewRound()\<close>. The write succeeds, so the handler of a duplicate key (which
  calls \<^verbatim>\<open>createNewRound\<close> again) is not entered.
\<close>

definition createNewRound :: "(string \<Rightarrow> digest) \<Rightarrow> world \<Rightarrow> engine \<Rightarrow> game_round \<times> engine" where
  "createNewRound sha256 w g =
     (let g1 = initialize g (w_db w);
          fc = generateProvablyFairCrash sha256 g1 (w_randomHex w);
          r = \<lparr>oid = w_oid w, roundNumber = roundCounter g1, seed = fc_seed fc,
               hash = fc_hash fc, crashPoint = fc_crashPoint fc, status = Betting,
               startTime = None, crashTime = None, roundTotalBets = 0, totalPlayers = 0,
               activeBets = []\<rparr>
      in (r, g1\<lparr>currentRound := Some r, roundCounter := roundCounter g1 + 1,
                gameState := Betting\<rparr>))"

section \<open>Placing a bet\<close>

record bet_result =
  br_bet :: current_bet
  br_conversion :: crypto_conversion
  br_newBalance :: real

text \<open>
  Lines 126 to 128 of \<^verbatim>\<open>placeBet\<close> (and 226 to 228 of \<^verbatim>\<open>startRound\<close>): the current
  round, created when there is none.
\<close>

definition ensureRound :: "(string \<Rightarrow> digest) \<Rightarrow> world \<Rightarrow> engine \<Rightarrow> game_round \<times> engine" where
  "ensureRound sha256 w g =
     (case currentRound g of
        None \<Rightarrow> createNewRound sha256 w g
      | Some r \<Rightarrow> (r, g))"

text \<open>
  Lines 147 to 177 of \<^verbatim>\<open>placeBet\<close>, once the conversion has resolved, in a call that
  nothing interrupts and whose \<^verbatim>\<open>save()\<close> (line 159) succeeds: the bet is appended to
  the round \<open>r\<close>, the totals are recomputed, and the session \<open>s\<close> is debited. The two
  parts that the wait of line 159 separates are \<open>placeBet_afterConversion\<close> and
  \<open>placeBet_afterSave\<close> below.
\<close>

definition recordBet ::
  "world \<Rightarrow> engine \<Rightarrow> game_round \<Rightarrow> session \<Rightarrow> string \<Rightarrow> real \<Rightarrow> string \<Rightarrow> crypto_conversion
     \<Rightarrow> bet_result \<times> engine" where
  "recordBet w g r s sid usd crypto conversion =
     (let b = \<lparr>betSessionId = sid, betPlayerName = playerName s,
               betUsdAmount = usd,
               betCryptoAmount = conv_cryptoAmount conversion,
               betCryptocurrency = crypto, cashedOut = False,
               cashoutMultiplier = None, cashoutTime = None,
               betTime = w_now w\<rparr>;
          bs = activeBets r @ [b];
          r' = r\<lparr>activeBets := bs,
                 roundTotalBets := roundTotalBets r + usd,
                 totalPlayers := length (remdups (map betSessionId bs))\<rparr>;
          cb = \<lparr>roundId = oid r, usdAmount = usd,
                cryptoAmount = conv_cryptoAmount conversion,
                cryptocurrency = crypto,
                priceAtBet = conv_priceAtTime conversion, isActive = True\<rparr>;
          s' = s\<lparr>balance := balance s - usd, totalBets := totalBets s + 1,
                 currentBet := Some cb\<rparr>
      in (\<lparr>br_bet = cb, br_conversion = conversion, br_newBalance = balance s'\<rparr>,
          g\<lparr>currentRound := Some r', sessions := (sessions g)(sid \<mapsto> s')\<rparr>))"

text \<open>
  \<^verbatim>\<open>placeBet(sessionId, usdAmount, cryptocurrency, playerName = null)\<close>, as a call that
  runs from its first line to its last with no other handler in between and whose
  writes to the round store succeed. The result is the value returned or the exception
  thrown, with the engine as the call leaves it: what was written before a
  \<^verbatim>\<open>throw\<close> stays written.
\<close>

definition placeBet ::
  "(string \<Rightarrow> digest) \<Rightarrow> world \<Rightarrow> engine \<Rightarrow> string \<Rightarrow> real \<Rightarrow> string \<Rightarrow> string option
     \<Rightarrow> (error + bet_result) \<times> engine" where
  "placeBet sha256 w g sid usd crypto pn =
     (let g1 = initialize g (w_db w) in
      if gameState g1 \<noteq> Betting \<and> gameState g1 \<noteq> Waiting
      then (Inl (StateError (''Betting is not allowed at this time. Current state: ''
                               @ statusString (gameState g1))), g1)
      else
        let (r, g2) = ensureRound sha256 w g1;
            (s, g3) = getSession g2 (w_now w) sid pn
        in if (case currentBet s of None \<Rightarrow> False | Some cb \<Rightarrow> roundId cb = oid r)
           then (Inl (DuplicateBetError ''You already have a bet placed this round''), g3)
           else if balance s < usd
           then (Inl (InsufficientFundsError (balance s) usd), g3)
           else
             case convertUsdToCrypto (w_prices w) usd crypto of
               Inl e \<Rightarrow> (Inl e, g3)
             | Inr conversion \<Rightarrow>
                 (case recordBet w g3 r s sid usd crypto conversion of
                    (res, g4) \<Rightarrow> (Inr res, g4)))"

text \<open>
  \<^verbatim>\<open>placeBet\<close> is an \<^verbatim>\<open>async\<close> function: after its checks it waits for the price
  conversion (line 144) and for \<^verbatim>\<open>save()\<close> (line 159), and the event loop may run
  other handlers meanwhile. These two waits cut it into three parts, modelled one by
  one (the waits of lines 120 and 127 precede the checks and are left inside the first
  part). A suspended call holds its local variables; the session object it holds is
  the one the table has under its id, and \<open>held\<close> stands for that object should the
  entry have left the table.

  Lines 120 to 141: the checks, up to the call of \<^verbatim>\<open>convertUsdToCrypto\<close>.
\<close>

definition placeBet_begin ::
  "(string \<Rightarrow> digest) \<Rightarrow> world \<Rightarrow> engine \<Rightarrow> string \<Rightarrow> real \<Rightarrow> string option
     \<Rightarrow> (error + session) \<times> engine" where
  "placeBet_begin sha256 w g sid usd pn =
     (let g1 = initialize g (w_db w) in
      if gameState g1 \<noteq> Betting \<and> gameState g1 \<noteq> Waiting
      then (Inl (StateError (''Betting is not allowed at this time. Current state: ''
                               @ statusString (gameState g1))), g1)
      else
        let (r, g2) = ensureRound sha256 w g1;
            (s, g3) = getSession g2 (w_now w) sid pn
        in if (case currentBet s of None \<Rightarrow> False | Some cb \<Rightarrow> roundId cb = oid r)
           then (Inl (DuplicateBetError ''You already have a bet placed this round''), g3)
           else if balance s < usd
           then (Inl (InsufficientFundsError (balance s) usd), g3)
           else (Inr s, g3))"

text \<open>
  Lines 147 to 158, once the conversion has resolved: the bet is appended to
  \<^verbatim>\<open>this.currentRound.activeBets\<close> and the totals of the round are recomputed, up to
  the call of \<^verbatim>\<open>save()\<close>. The session is not touched yet.
\<close>

definition placeBet_afterConversion ::
  "world \<Rightarrow> engine \<Rightarrow> session \<Rightarrow> string \<Rightarrow> real \<Rightarrow> string \<Rightarrow> crypto_conversion
     \<Rightarrow> (error + unit) \<times> engine" where
  "placeBet_afterConversion w g held sid usd crypto conversion =
     (case currentRound g of
        None \<Rightarrow> (Inl TypeError, g)
      | Some r \<Rightarrow>
          let s = (case sessions g sid of Some s \<Rightarrow> s | None \<Rightarrow> held);
              b = \<lparr>betSessionId = sid, betPlayerName = playerName s,
                   betUsdAmount = usd,
                   betCryptoAmount = conv_cryptoAmount conversion,
                   betCryptocurrency = crypto, cashedOut = False,
                   cashoutMultiplier = None, cashoutTime = None,
                   betTime = w_now w\<rparr>;
              bs = activeBets r @ [b]
          in (Inr (),
              g\<lparr>currentRound := Some (r\<lparr>activeBets := bs,
                                        roundTotalBets := roundTotalBets r + usd,
                                        totalPlayers := length (remdups (map betSessionId bs))\<rparr>)\<rparr>))"

text \<open>
  Lines 161 to 177, once the round is saved: the debit, the count, and the current bet
  of the session with the id of \<^verbatim>\<open>this.currentRound\<close> as it is then (a \<open>TypeError\<close>
  after the debit when there is none), and the returned value.
\<close>

definition placeBet_afterSave ::
  "engine \<Rightarrow> session \<Rightarrow> string \<Rightarrow> real \<Rightarrow> string \<Rightarrow> crypto_conversion
     \<Rightarrow> (error + bet_result) \<times> engine" where
  "placeBet_afterSave g held sid usd crypto conversion =
     (let s = (case sessions g sid of Some s \<Rightarrow> s | None \<Rightarrow> held);
          s1 = s\<lparr>balance := balance s - usd, totalBets := totalBets s + 1\<rparr>;
          store = (\<lambda>s'. case sessions g sid of
                           Some _ \<Rightarrow> g\<lparr>sessions := (sessions g)(sid \<mapsto> s')\<rparr>
                         | None \<Rightarrow> g)
      in case currentRound g of
           None \<Rightarrow> (Inl TypeError, store s1)
         | Some r \<Rightarrow>
             let cb = \<lparr>roundId = oid r, usdAmount = usd,
                       cryptoAmount = conv_cryptoAmount conversion,
                       cryptocurrency = crypto,
                       priceAtBet = conv_priceAtTime conversion, isActive = True\<rparr>;
                 s2 = s1\<lparr>currentBet := Some cb\<rparr>
             in (Inr \<lparr>br_bet = cb, br_conversion = conversion, br_newBalance = balance s2\<rparr>,
                 store s2))"

text \<open>
  The rest of a call from the moment its conversion resolves, on the price table \<open>w\<close>
  supplies, when its \<^verbatim>\<open>save()\<close> succeeds and nothing runs while it waits for it.
\<close>

definition placeBet_resume ::
  "world \<Rightarrow> engine \<Rightarrow> session \<Rightarrow> string \<Rightarrow> real \<Rightarrow> string \<Rightarrow> (error + bet_result) \<times> engine" where
  "placeBet_resume w g held sid usd crypto =
     (case convertUsdToCrypto (w_prices w) usd crypto of
        Inl e \<Rightarrow> (Inl e, g)
      | Inr conversion \<Rightarrow>
          (case placeBet_afterConversion w g held sid usd crypto conversion of
             (Inl e, g2) \<Rightarrow> (Inl e, g2)
           | (Inr u, g2) \<Rightarrow> placeBet_afterSave g2 held sid usd crypto conversion))"

text \<open>
  Two calls for one session where the second is received while the first waits for its
  conversion: both run their checks before either writes.
\<close>

definition overlappingPlaceBets ::
  "(string \<Rightarrow> digest) \<Rightarrow> world \<Rightarrow> world \<Rightarrow> engine \<Rightarrow> string \<Rightarrow> real \<Rightarrow> real \<Rightarrow> string
     \<Rightarrow> (error + bet_result) \<times> (error + bet_result) \<times> engine" where
  "overlappingPlaceBets sha256 w1 w2 g sid usd1 usd2 crypto =
     (case placeBet_begin sha256 w1 g sid usd1 None of
        (Inl e1, g1) \<Rightarrow>
          (case placeBet sha256 w2 g1 sid usd2 crypto None of (r2, g2) \<Rightarrow> (Inl e1, r2, g2))
      | (Inr s1, g1) \<Rightarrow>
          (case placeBet_begin sha256 w2 g1 sid usd2 None of
             (Inl e2, g2) \<Rightarrow>
               (case placeBet_resume w1 g2 s1 sid usd1 crypto of (r1, g3) \<Rightarrow> (r1, Inl e2, g3))
           | (Inr s2, g2) \<Rightarrow>
               (case placeBet_resume w1 g2 s1 sid usd1 crypto of
                  (r1, g3) \<Rightarrow>
                    (case placeBet_resume w2 g3 s2 sid usd2 crypto of
                       (r2, g4) \<Rightarrow> (r1, r2, g4)))))"

text \<open>
  A call from its first line to the wait of line 159: the checks, the conversion and
  the bet appended to the round. It hands on the session object and the conversion;
  the engine it returns is the one other handlers see while the round is being saved.
\<close>

definition placeBet_untilSave ::
  "(string \<Rightarrow> digest) \<Rightarrow> world \<Rightarrow> engine \<Rightarrow> string \<Rightarrow> real \<Rightarrow> string \<Rightarrow> string option
     \<Rightarrow> (error + session \<times> crypto_conversion) \<times> engine" where
  "placeBet_untilSave sha256 w g sid usd crypto pn =
     (case placeBet_begin sha256 w g sid usd pn of
        (Inl e, g1) \<Rightarrow> (Inl e, g1)
      | (Inr s, g1) \<Rightarrow>
          (case convertUsdToCrypto (w_prices w) usd crypto of
             Inl e \<Rightarrow> (Inl e, g1)
           | Inr conversion \<Rightarrow>
               (case placeBet_afterConversion w g1 s sid usd crypto conversion of
                  (Inl e, g2) \<Rightarrow> (Inl e, g2)
                | (Inr u, g2) \<Rightarrow> (Inr (s, conversion), g2))))"

text \<open>
  The call whose \<^verbatim>\<open>save()\<close> is rejected: the rejection is thrown out of line 159.
  \<^verbatim>\<open>placeBet\<close> has no \<^verbatim>\<open>catch\<close>, so the bet appended at line 147 and the totals of
  lines 157 and 158 stay in \<^verbatim>\<open>this.currentRound\<close>, and lines 161 to 170 do not run.
\<close>

definition placeBet_saveRejected ::
  "(string \<Rightarrow> digest) \<Rightarrow> world \<Rightarrow> engine \<Rightarrow> string \<Rightarrow> real \<Rightarrow> string \<Rightarrow> string option
     \<Rightarrow> (error + bet_result) \<times> engine" where
  "placeBet_saveRejected sha256 w g sid usd crypto pn =
     (case placeBet_untilSave sha256 w g sid usd crypto pn of
        (Inl e, g1) \<Rightarrow> (Inl e, g1)
      | (Inr p, g1) \<Rightarrow> (Inl WriteError, g1))"

text \<open>
  Two calls for one session where the second is received, and runs to its end, while
  the first waits for its \<^verbatim>\<open>save()\<close>; then the first resumes.
\<close>

definition placeBetWhileSaving ::
  "(string \<Rightarrow> digest) \<Rightarrow> world \<Rightarrow> world \<Rightarrow> engine \<Rightarrow> string \<Rightarrow> real \<Rightarrow> real \<Rightarrow> string
     \<Rightarrow> (error + bet_result) \<times> (error + bet_result) \<times> engine" where
  "placeBetWhileSaving sha256 w1 w2 g sid usd1 usd2 crypto =
     (case placeBet_untilSave sha256 w1 g sid usd1 crypto None of
        (Inl e1, g1) \<Rightarrow>
          (case placeBet sha256 w2 g1 sid usd2 crypto None of (r2, g2) \<Rightarrow> (Inl e1, r2, g2))
      | (Inr (s1, conversion), g1) \<Rightarrow>
          (case placeBet sha256 w2 g1 sid usd2 crypto None of
             (r2, g2) \<Rightarrow>
               (case placeBet_afterSave g2 s1 sid usd1 crypto conversion of
                  (r1, g3) \<Rightarrow> (r1, r2, g3))))"

section \<open>Cashing out\<close>

text \<open>\<^verbatim>\<open>Array.prototype.findIndex\<close>; \<open>None\<close> is its \<^verbatim>\<open>-1\<close>.\<close>

fun findIndex :: "('a \<Rightarrow> bool) \<Rightarrow> 'a list \<Rightarrow> nat option" where
  "findIndex P [] = None"
| "findIndex P (x # xs) = (if P x then Some 0 else map_option Suc (findIndex P xs))"

text \<open>
  \<^verbatim>\<open>cashOut\<close> is an \<^verbatim>\<open>async\<close> function with two \<^verbatim>\<open>await\<close>s: it runs in three
  uninterrupted parts, and between two of them the event loop may run other handlers.
  The parts are modelled one by one; \<open>cashOut\<close> below is the call that runs all three
  with nothing in between.

  A call suspended at an \<^verbatim>\<open>await\<close> holds its local variables. The session object it
  holds is the one the table has under its id (only \<^verbatim>\<open>cleanupSessions\<close> removes an
  entry); should the entry be gone, \<open>cp_session\<close> stands for the detached object.
\<close>

record cashout_pending =
  cp_session :: session
  cp_betIndex :: nat
  cp_bet :: bet
  cp_winAmount :: real

text \<open>Lines 181 to 200: the checks, up to the call of \<^verbatim>\<open>convertCryptoToUsd\<close>.\<close>

definition cashOut_begin ::
  "engine \<Rightarrow> timestamp \<Rightarrow> string \<Rightarrow> (error + cashout_pending) \<times> engine" where
  "cashOut_begin g now sid =
     (if gameState g \<noteq> Active
      then (Inl (StateError ''Cannot cash out at this time''), g)
      else
        let (s, g1) = getSession g now sid None
        in if (case currentBet s of None \<Rightarrow> True | Some cb \<Rightarrow> \<not> isActive cb)
           then (Inl (NotFoundError ''No active bet found''), g1)
           else
             case currentRound g1 of
               None \<Rightarrow> (Inl TypeError, g1)
             | Some r \<Rightarrow>
                 (case findIndex (\<lambda>b. betSessionId b = sid \<and> \<not> cashedOut b) (activeBets r) of
                    None \<Rightarrow> (Inl (NotFoundError ''No active bet found in current round''), g1)
                  | Some betIndex \<Rightarrow>
                      let b = activeBets r ! betIndex
                      in (Inr \<lparr>cp_session = s, cp_betIndex = betIndex, cp_bet = b,
                                cp_winAmount = betCryptoAmount b * multiplier g1\<rparr>, g1)))"

text \<open>
  Lines 203 to 208, once the conversion has resolved: the profit, and the marks on
  \<^verbatim>\<open>this.currentRound.activeBets[betIndex]\<close>, up to the call of \<^verbatim>\<open>save()\<close>.
\<close>

definition cashOut_afterConversion ::
  "engine \<Rightarrow> timestamp \<Rightarrow> cashout_pending \<Rightarrow> usd_conversion \<Rightarrow> (error + real) \<times> engine" where
  "cashOut_afterConversion g now p conversion =
     (let profit = conv_usdAmount conversion - betUsdAmount (cp_bet p)
      in case currentRound g of
           None \<Rightarrow> (Inl TypeError, g)
         | Some r \<Rightarrow>
             if cp_betIndex p < length (activeBets r)
             then
               let b' = (activeBets r ! cp_betIndex p)
                          \<lparr>cashedOut := True, cashoutMultiplier := Some (multiplier g),
                           cashoutTime := Some now\<rparr>
               in (Inr profit,
                   g\<lparr>currentRound := Some (r\<lparr>activeBets := (activeBets r)[cp_betIndex p := b']\<rparr>)\<rparr>)
             else (Inl TypeError, g))"

record cashout_result =
  co_multiplier :: real
  co_winAmount :: real
  co_profit :: real
  co_newBalance :: real

text \<open>Lines 211 to 222, once the round is saved: the credit and the returned value.\<close>

definition cashOut_afterSave ::
  "engine \<Rightarrow> string \<Rightarrow> cashout_pending \<Rightarrow> usd_conversion \<Rightarrow> real
     \<Rightarrow> (error + cashout_result) \<times> engine" where
  "cashOut_afterSave g sid p conversion profit =
     (let s = (case sessions g sid of Some s \<Rightarrow> s | None \<Rightarrow> cp_session p);
          s1 = s\<lparr>balance := balance s + conv_usdAmount conversion,
                 totalWins := totalWins s + 1,
                 totalWinnings := totalWinnings s + profit\<rparr>;
          store = (\<lambda>s'. case sessions g sid of
                           Some _ \<Rightarrow> g\<lparr>sessions := (sessions g)(sid \<mapsto> s')\<rparr>
                         | None \<Rightarrow> g)
      in case currentBet s1 of
           None \<Rightarrow> (Inl TypeError, store s1)
         | Some cb \<Rightarrow>
             let s2 = s1\<lparr>currentBet := Some (cb\<lparr>isActive := False\<rparr>)\<rparr>
             in (Inr \<lparr>co_multiplier = multiplier g,
                       co_winAmount = conv_usdAmount conversion,
                       co_profit = profit, co_newBalance = balance s2\<rparr>,
                 store s2))"

text \<open>
  The rest of a call from the moment its conversion resolves, on the price table \<open>w\<close>
  supplies, and \<^verbatim>\<open>cashOut(sessionId)\<close> run without interruption.
\<close>

definition cashOut_resume ::
  "world \<Rightarrow> engine \<Rightarrow> string \<Rightarrow> cashout_pending \<Rightarrow> (error + cashout_result) \<times> engine" where
  "cashOut_resume w g sid p =
     (case convertCryptoToUsd (w_prices w) (cp_winAmount p) (betCryptocurrency (cp_bet p)) of
        Inl e \<Rightarrow> (Inl e, g)
      | Inr conversion \<Rightarrow>
          (case cashOut_afterConversion g (w_now w) p conversion of
             (Inl e, g2) \<Rightarrow> (Inl e, g2)
           | (Inr profit, g2) \<Rightarrow> cashOut_afterSave g2 sid p conversion profit))"

definition cashOut :: "world \<Rightarrow> engine \<Rightarrow> string \<Rightarrow> (error + cashout_result) \<times> engine" where
  "cashOut w g sid =
     (case cashOut_begin g (w_now w) sid of
        (Inl e, g1) \<Rightarrow> (Inl e, g1)
      | (Inr p, g1) \<Rightarrow> cashOut_resume w g1 sid p)"

text \<open>
  Two calls for one session where the second is received while the first waits for its
  conversion: both run their checks before either resumes.
\<close>

definition overlappingCashOuts ::
  "world \<Rightarrow> world \<Rightarrow> engine \<Rightarrow> string
     \<Rightarrow> (error + cashout_result) \<times> (error + cashout_result) \<times> engine" where
  "overlappingCashOuts w1 w2 g sid =
     (case cashOut_begin g (w_now w1) sid of
        (Inl e1, g1) \<Rightarrow>
          (case cashOut w2 g1 sid of (r2, g2) \<Rightarrow> (Inl e1, r2, g2))
      | (Inr p1, g1) \<Rightarrow>
          (case cashOut_begin g1 (w_now w2) sid of
             (Inl e2, g2) \<Rightarrow>
               (case cashOut_resume w1 g2 sid p1 of (r1, g3) \<Rightarrow> (r1, Inl e2, g3))
           | (Inr p2, g2) \<Rightarrow>
               (case cashOut_resume w1 g2 sid p1 of
                  (r1, g3) \<Rightarrow>
                    (case cashOut_resume w2 g3 sid p2 of (r2, g4) \<Rightarrow> (r1, r2, g4)))))"

section \<open>The round lifecycle\<close>

text \<open>\<^verbatim>\<open>startRound()\<close>; the timer it arms calls \<open>updateMultiplier\<close>.\<close>

definition startRound :: "(string \<Rightarrow> digest) \<Rightarrow> world \<Rightarrow> engine \<Rightarrow> engine" where
  "startRound sha256 w g =
     (let (r, g1) = ensureRound sha256 w g
      in g1\<lparr>currentRound := Some (r\<lparr>status := Active, startTime := Some (w_now w)\<rparr>),
            gameState := Active, multiplier := 1, engineStartTime := Some (w_now w)\<rparr>)"

text \<open>
  The assignment \<^verbatim>\<open>session.currentBet.isActive = false\<close> on a session that has a
  current bet (a session without one is returned as it is).
\<close>

definition withBetInactive :: "session \<Rightarrow> session" where
  "withBetInactive s = s\<lparr>currentBet := map_option (\<lambda>cb. cb\<lparr>isActive := False\<rparr>) (currentBet s)\<rparr>"

text \<open>
  The body of the loop of \<^verbatim>\<open>processUncastedBets()\<close>, for one bet that was not cashed
  out, and the function itself.
\<close>

definition forfeitBet :: "engine \<Rightarrow> bet \<Rightarrow> engine" where
  "forfeitBet g b =
     (case sessions g (betSessionId b) of
        None \<Rightarrow> g
      | Some s \<Rightarrow>
          (case currentBet s of
             None \<Rightarrow> g
           | Some cb \<Rightarrow>
               g\<lparr>sessions := (sessions g)(betSessionId b \<mapsto>
                    s\<lparr>currentBet := Some (cb\<lparr>isActive := False\<rparr>)\<rparr>)\<rparr>))"

definition processUncastedBets :: "engine \<Rightarrow> engine" where
  "processUncastedBets g =
     (case currentRound g of
        None \<Rightarrow> g
      | Some r \<Rightarrow>
          let uncastedBets = filter (\<lambda>b. \<not> cashedOut b) (activeBets r)
          in foldl forfeitBet g uncastedBets)"

text \<open>
  \<^verbatim>\<open>crashGame()\<close>; the timer it arms calls \<open>resetForNewRound\<close> two seconds later.
\<close>

definition crashGame :: "engine \<Rightarrow> timestamp \<Rightarrow> (error + unit) \<times> engine" where
  "crashGame g now =
     (let g1 = g\<lparr>gameState := Crashed\<rparr>
      in case currentRound g1 of
           None \<Rightarrow> (Inl TypeError, g1)
         | Some r \<Rightarrow>
             let g2 = g1\<lparr>currentRound := Some (r\<lparr>status := Crashed, crashTime := Some now\<rparr>)\<rparr>
             in (Inr (), processUncastedBets g2))"

text \<open>
  \<^verbatim>\<open>updateMultiplier()\<close>, at the time \<open>now\<close> of \<^verbatim>\<open>Date.now()\<close>. \<^verbatim>\<open>Math.E\<close> is
  \<open>exp 1\<close>; a \<^verbatim>\<open>startTime\<close> that is still \<^verbatim>\<open>null\<close> counts as 0 in the subtraction.
\<close>

definition updateMultiplier :: "engine \<Rightarrow> timestamp \<Rightarrow> (error + unit) \<times> engine" where
  "updateMultiplier g now =
     (let elapsed = real_of_int (now - (case engineStartTime g of None \<Rightarrow> 0 | Some t \<Rightarrow> t)) / 1000;
          growthRate = (0.08 :: real);
          g1 = g\<lparr>multiplier := exp 1 powr (growthRate * elapsed)\<rparr>
      in case currentRound g1 of
           None \<Rightarrow> (Inl TypeError, g1)
         | Some r \<Rightarrow>
             if js_ge (Fin (multiplier g1)) (crashPoint r) then crashGame g1 now
             else (Inr (), g1))"

definition resetForNewRound :: "engine \<Rightarrow> engine" where
  "resetForNewRound g = g\<lparr>currentRound := None, multiplier := 1, gameState := Waiting\<rparr>"

text \<open>\<^verbatim>\<open>cleanupSessions()\<close>: one hour is 3600000 milliseconds.\<close>

definition cleanupSessions :: "engine \<Rightarrow> timestamp \<Rightarrow> engine" where
  "cleanupSessions g now =
     g\<lparr>sessions := (\<lambda>sid.
          case sessions g sid of
            None \<Rightarrow> None
          | Some s \<Rightarrow>
              if joinedAt s < now - 60 * 60 * 1000
                 \<and> (case currentBet s of None \<Rightarrow> True | Some cb \<Rightarrow> \<not> isActive cb)
              then None else Some s)\<rparr>"

text \<open>
  \<^verbatim>\<open>getCurrentGameState()\<close>, without its \<^verbatim>\<open>onlinePlayers\<close> (the size of the session
  table).
\<close>

record game_state =
  gs_roundNumber :: nat
  gs_status :: status
  gs_multiplier :: real
  gs_crashPoint :: "jsnum option"
  gs_totalBets :: real
  gs_totalPlayers :: nat
  gs_activeBets :: "bet list"

definition getCurrentGameState :: "engine \<Rightarrow> game_state" where
  "getCurrentGameState g =
     \<lparr>gs_roundNumber = (case currentRound g of None \<Rightarrow> 0 | Some r \<Rightarrow> roundNumber r),
      gs_status = gameState g,
      gs_multiplier = multiplier g,
      gs_crashPoint = (if gameState g = Crashed then map_option crashPoint (currentRound g) else None),
      gs_totalBets = (case currentRound g of None \<Rightarrow> 0 | Some r \<Rightarrow> roundTotalBets r),
      gs_totalPlayers = (case currentRound g of None \<Rightarrow> 0 | Some r \<Rightarrow> totalPlayers r),
      gs_activeBets = (case currentRound g of None \<Rightarrow> [] | Some r \<Rightarrow> activeBets r)\<rparr>"

text \<open>\<^verbatim>\<open>getSessionInfo(sessionId)\<close>.\<close>

definition getSessionInfo :: "engine \<Rightarrow> timestamp \<Rightarrow> string \<Rightarrow> session \<times> engine" where
  "getSessionInfo g now sid = getSession g now sid None"

section \<open>The request handlers\<close>

text \<open>
  The body of a \<^verbatim>\<open>POST /bet\<close> request: a field that is absent is \<open>None\<close>. The
  controller answers every rejection with status 400 and the message.
\<close>

record bet_request =
  rq_sessionId :: "string option"
  rq_usdAmount :: "real option"
  rq_cryptocurrency :: "string option"
  rq_playerName :: "string option"

text \<open>The controller \<^verbatim>\<open>placeBet(req, res)\<close> of the HTTP interface.\<close>

definition placeBetController ::
  "(string \<Rightarrow> digest) \<Rightarrow> world \<Rightarrow> engine \<Rightarrow> bet_request \<Rightarrow> (error + bet_result) \<times> engine" where
  "placeBetController sha256 w g body =
     (case (givenName (rq_sessionId body), rq_usdAmount body, givenName (rq_cryptocurrency body)) of
        (Some sid, Some usd, Some crypto) \<Rightarrow>
          if usd = 0
          then (Inl (ValidationError
                  ''Missing required fields: sessionId, usdAmount, cryptocurrency''), g)
          else if usd \<le> 0
          then (Inl (ValidationError ''Bet amount must be positive''), g)
          else if toUpperCase crypto \<noteq> ''BTC'' \<and> toUpperCase crypto \<noteq> ''ETH''
          then (Inl (ValidationError ''Cryptocurrency must be one of: BTC, ETH''), g)
          else placeBet sha256 w g sid usd (toUpperCase crypto) (rq_playerName body)
      | _ \<Rightarrow> (Inl (ValidationError
                  ''Missing required fields: sessionId, usdAmount, cryptocurrency''), g))"

text \<open>
  The data of a \<^verbatim>\<open>place_bet\<close> message on the web socket, and its case of
  \<^verbatim>\<open>handleMessage\<close>: the fields go to the engine as they are. The session id is the
  one the connection was given.
\<close>

record place_bet_message =
  msg_usdAmount :: real
  msg_cryptocurrency :: string
  msg_playerName :: "string option"

definition handlePlaceBetMessage ::
  "(string \<Rightarrow> digest) \<Rightarrow> world \<Rightarrow> engine \<Rightarrow> string \<Rightarrow> place_bet_message
     \<Rightarrow> (error + bet_result) \<times> engine" where
  "handlePlaceBetMessage sha256 w g sid m =
     placeBet sha256 w g sid (msg_usdAmount m) (msg_cryptocurrency m) (msg_playerName m)"

section \<open>Runs of the engine\<close>

text \<open>
  The calls the handlers and timers make, each with what it reads from outside, and the
  engine after a sequence of calls that each run to their end.
\<close>

datatype operation =
    PlaceBet world string real string "string option"
  | CashOut world string
  | CreateNewRound world
  | StartRound world
  | UpdateMultiplier timestamp
  | ResetForNewRound
  | GetSession timestamp string "string option"
  | CleanupSessions timestamp

fun step :: "(string \<Rightarrow> digest) \<Rightarrow> engine \<Rightarrow> operation \<Rightarrow> engine" where
  "step sha256 g (PlaceBet w sid usd crypto pn) = snd (placeBet sha256 w g sid usd crypto pn)"
| "step sha256 g (CashOut w sid) = snd (cashOut w g sid)"
| "step sha256 g (CreateNewRound w) = snd (createNewRound sha256 w g)"
| "step sha256 g (StartRound w) = startRound sha256 w g"
| "step sha256 g (UpdateMultiplier now) = snd (updateMultiplier g now)"
| "step sha256 g ResetForNewRound = resetForNewRound g"
| "step sha256 g (GetSession now sid pn) = snd (getSession g now sid pn)"
| "step sha256 g (CleanupSessions now) = cleanupSessions g now"

definition run :: "(string \<Rightarrow> digest) \<Rightarrow> engine \<Rightarrow> operation list \<Rightarrow> engine" where
  "run sha256 g ops = foldl (step sha256) g ops"

definition pricesPositive :: "prices \<Rightarrow> bool" where
  "pricesPositive p = (0 < BTC p \<and> 0 < ETH p \<and> 0 < BNB p \<and> 0 < ADA p)"

text \<open>
  A bet or cash-out request is valid when its amount is positive and the price table
  it meets has positive prices.
\<close>

fun validOperation :: "operation \<Rightarrow> bool" where
  "validOperation (PlaceBet w sid usd crypto pn) = (0 < usd \<and> pricesPositive (w_prices w))"
| "validOperation (CashOut w sid) = pricesPositive (w_prices w)"
| "validOperation _ = True"

section \<open>A sample run\<close>

text \<open>
  Concrete inputs for the examples below: a digest function, a price table with BTC at
  50000, and the engine after a new player staked 100 on BTC and the round reached the
  multiplier 3.
\<close>

definition fixedDigest :: "string \<Rightarrow> digest" where
  "fixedDigest t = 0"

definition samplePrices :: prices where
  "samplePrices = \<lparr>BTC = 50000, ETH = 2500, BNB = 300, ADA = 1 / 2, pricesTimestamp = 0\<rparr>"

definition sampleWorld :: world where
  "sampleWorld = \<lparr>w_now = 0, w_db = DbEmpty, w_randomHex = replicate 64 (CHR ''0''),
     w_oid = 1, w_prices = samplePrices\<rparr>"

definition afterBet :: engine where
  "afterBet = snd (placeBet fixedDigest sampleWorld newEngine ''player-1'' 100 ''BTC'' None)"

definition atThree :: engine where
  "atThree = (startRound fixedDigest sampleWorld afterBet)\<lparr>multiplier := 3\<rparr>"

definition readyEngine :: engine where
  "readyEngine =
     snd (getSession (snd (createNewRound fixedDigest sampleWorld newEngine)) 0 ''player-1'' None)"

section \<open>Invariants of the runs\<close>

text \<open>
  No balance is negative, the multiplier is positive and no bet of the current round
  holds a negative amount of crypto.
\<close>

definition balancesOk :: "engine \<Rightarrow> bool" where
  "balancesOk g =
     ((\<forall>sid s. sessions g sid = Some s \<longrightarrow> 0 \<le> balance s)
      \<and> 0 < multiplier g
      \<and> (\<forall>r. currentRound g = Some r \<longrightarrow> (\<forall>b \<in> set (activeBets r). 0 \<le> betCryptoAmount b)))"

text \<open>
  The bets of the current round come from different sessions, and while bets are
  accepted each of them is the active current bet of its session.
\<close>

definition oneBetPerSession :: "engine \<Rightarrow> bool" where
  "oneBetPerSession g =
     (\<forall>r. currentRound g = Some r \<longrightarrow>
        distinct (map betSessionId (activeBets r))
        \<and> (gameState g = Betting \<or> gameState g = Waiting \<longrightarrow>
             (\<forall>b \<in> set (activeBets r).
                \<exists>s cb. sessions g (betSessionId b) = Some s \<and> currentBet s = Some cb
                       \<and> roundId cb = oid r \<and> isActive cb)))"

text \<open>
  The test of line 134 as a call of \<^verbatim>\<open>placeBet\<close> will evaluate it: the session has a
  current bet, and its round is the current round (when there is none, the round the
  call is about to create, whose \<^verbatim>\<open>_id\<close> is \<open>w_oid w\<close>).
\<close>

definition alreadyBetThisRound :: "world \<Rightarrow> engine \<Rightarrow> string \<Rightarrow> bool" where
  "alreadyBetThisRound w g sid =
     (case sessions g sid of
        None \<Rightarrow> False
      | Some s \<Rightarrow>
          (case currentBet s of
             None \<Rightarrow> False
           | Some cb \<Rightarrow> roundId cb = (case currentRound g of None \<Rightarrow> w_oid w | Some r \<Rightarrow> oid r)))"


section \<open>Properties of the crash point\<close>


lemma lt16_cases:
  "k < (16::nat) \<Longrightarrow> k \<in> {0,1,2,3,4,5,6,7,8,9,10,11,12,13,14,15}"
  by (simp add: insert_iff) arith

lemma hexDigit_props: "isHexDigit (hexDigit n) \<and> hexValue (hexDigit n) < 16"
proof -
  have "n mod 16 < 16" by simp
  then have "n mod 16 \<in> {0,1,2,3,4,5,6,7,8,9,10,11,12,13,14,15}" by (rule lt16_cases)
  then show ?thesis
    unfolding hexDigit_def isHexDigit_def hexValue_def by (elim insertE emptyE) simp_all
qed

lemma foldl_hex_bound:
  "\<forall>c \<in> set ds. hexValue c < 16 \<Longrightarrow>
   foldl (\<lambda>a c. 16 * a + hexValue c) a ds < (a + 1) * 16 ^ length ds"
proof (induction ds arbitrary: a)
  case Nil
  then show ?case by simp
next
  case (Cons d ds)
  have d: "hexValue d < 16" using Cons.prems by simp
  have "foldl (\<lambda>a c. 16 * a + hexValue c) (16 * a + hexValue d) ds
          < (16 * a + hexValue d + 1) * 16 ^ length ds"
    using Cons.IH Cons.prems by simp
  also have "\<dots> \<le> (16 * (a + 1)) * 16 ^ length ds"
    using d by (intro mult_right_mono) simp_all
  finally show ?case by (simp add: algebra_simps)
qed

lemma parseInt16_hex:
  assumes "ds \<noteq> []" "\<forall>c \<in> set ds. isHexDigit c \<and> hexValue c < 16"
  shows "\<exists>n. parseInt16 ds = Fin (real n) \<and> n < 16 ^ length ds"
proof -
  have tw: "takeWhile isHexDigit ds = ds" using assms(2) by (simp add: takeWhile_eq_all_conv)
  have "foldl (\<lambda>a c. 16 * a + hexValue c) 0 ds < (0 + 1) * 16 ^ length ds"
    using assms(2) by (intro foldl_hex_bound) simp
  then show ?thesis using assms(1) by (simp add: parseInt16_def tw)
qed

lemma take13_digestHex:
  "take 13 (digestHex w) = map (\<lambda>i. hexDigit (unat (drop_bit (4 * (63 - i)) w) mod 16)) [0..<13]"
  by (simp add: digestHex_def take_map)

lemma hashInt_range:
  "\<exists>n. parseInt16 (take 13 (digestHex w)) = Fin (real n) \<and> n < 2 ^ 52"
proof -
  let ?ds = "take 13 (digestHex w)"
  have len: "length ?ds = 13" by (simp add: digestHex_def)
  have ne: "?ds \<noteq> []" using len by auto
  have hex: "\<forall>c \<in> set ?ds. isHexDigit c \<and> hexValue c < 16"
    unfolding take13_digestHex using hexDigit_props by auto
  from parseInt16_hex [OF ne hex] obtain n where
    n: "parseInt16 ?ds = Fin (real n)" "n < 16 ^ length ?ds" by blast
  have "(16::nat) ^ 13 = 2 ^ 52" by simp
  with n len show ?thesis by auto
qed


lemma clamp_round_range:
  assumes "171 \<le> q"
  shows "\<exists>c. js_div (js_round (js_mul (js_max (Fin 1.01) (js_min (Fin 120) (Fin (q / 100)))) (Fin 100))) (Fin 100) = Fin c
             \<and> 171 / 100 \<le> c \<and> c \<le> 120"
proof -
  define m where "m = max (1.01::real) (min 120 (q / 100))"
  have m: "171 / 100 \<le> m" "m \<le> 120" using assms by (auto simp: m_def)
  have lo: "(171::int) \<le> \<lfloor>m * 100 + 1 / 2\<rfloor>" using m(1) by (simp add: le_floor_iff)
  have hi: "\<lfloor>m * 100 + 1 / 2\<rfloor> \<le> (12000::int)" using m(2) by (simp add: floor_le_iff)
  have lo': "(171::real) \<le> of_int \<lfloor>m * 100 + 1 / 2\<rfloor>" using lo by linarith
  have hi': "of_int \<lfloor>m * 100 + 1 / 2\<rfloor> \<le> (12000::real)" using hi by linarith
  have "js_div (js_round (js_mul (js_max (Fin 1.01) (js_min (Fin 120) (Fin (q / 100)))) (Fin 100))) (Fin 100)
          = Fin (of_int \<lfloor>m * 100 + 1 / 2\<rfloor> / 100)"
    by (simp add: m_def)
  moreover have "171 / 100 \<le> (of_int \<lfloor>m * 100 + 1 / 2\<rfloor> / 100 :: real)" using lo' by simp
  moreover have "(of_int \<lfloor>m * 100 + 1 / 2\<rfloor> / 100 :: real) \<le> 120" using hi' by simp
  ultimately show ?thesis by blast
qed

lemma crashPoint_of_zero: "crashPointOfHashInt (Fin 0) = Fin 120"
  by (simp add: crashPointOfHashInt_def)

lemma crashPoint_of_positive:
  assumes "0 < n" "n \<le> 2 ^ 52"
  shows "\<exists>c. crashPointOfHashInt (Fin (real n)) = Fin c \<and> 171 / 100 \<le> c \<and> c \<le> 120"
proof -
  define r where "r = real n / 2 ^ 52"
  define p where "p = r powr (1 / 3)"
  define q where "q = (of_int \<lfloor>(100 * 2.718281828 - 100) / p\<rfloor> :: real)"
  have r: "0 < r" "r \<le> 1" using assms by (simp_all add: r_def)
  have p: "0 < p" "p \<le> 1" using r by (simp_all add: p_def powr_le1)
  have "(171::real) \<le> (100 * 2.718281828 - 100) / p"
    using p by (simp add: le_divide_eq)
  then have q: "171 \<le> q" unfolding q_def by (simp add: le_floor_iff)
  have "js_div (Fin (real n)) (js_pow (Fin 2) (Fin 52)) = Fin r"
    by (simp add: r_def)
  then have "js_pow (js_div (Fin (real n)) (js_pow (Fin 2) (Fin 52))) (Fin (1 / 3)) = Fin p"
    using r by (simp add: p_def)
  then have "crashPointOfHashInt (Fin (real n)) =
      js_div (js_round (js_mul (js_max (Fin 1.01) (js_min (Fin 120) (Fin (q / 100)))) (Fin 100))) (Fin 100)"
    using p unfolding crashPointOfHashInt_def Let_def by (simp add: q_def)
  then show ?thesis using clamp_round_range [OF q] by simp
qed


text \<open>
  C5. Whatever the random seed and the round counter, the crash point that
  \<^verbatim>\<open>generateProvablyFairCrash\<close> returns, and so the one of every round that
  \<^verbatim>\<open>createNewRound\<close> creates, is a number between 1.01 and 120.
\<close>

theorem crashPoint_in_range:
  "(\<exists>c. fc_crashPoint (generateProvablyFairCrash sha256 g randomHex) = Fin c
        \<and> 1.01 \<le> c \<and> c \<le> 120)
   \<and> (\<exists>c. crashPoint (fst (createNewRound sha256 w g)) = Fin c \<and> 1.01 \<le> c \<and> c \<le> 120)"
proof -
  have gen: "\<exists>c. fc_crashPoint (generateProvablyFairCrash sha256 g' x) = Fin c
                 \<and> 1.01 \<le> c \<and> c \<le> 120" for g' x
  proof -
    obtain n where n: "parseInt16 (take 13 (digestHex (sha256 (x @ decimalString (roundCounter g'))))) = Fin (real n)"
        "n < 2 ^ 52"
      using hashInt_range by blast
    have "\<exists>c. crashPointOfHashInt (Fin (real n)) = Fin c \<and> 171 / 100 \<le> c \<and> c \<le> 120"
    proof (cases "n = 0")
      case True
      then show ?thesis by (simp add: crashPoint_of_zero)
    next
      case False
      then show ?thesis using crashPoint_of_positive [of n] n(2) by simp
    qed
    then obtain c where "crashPointOfHashInt (Fin (real n)) = Fin c" "171 / 100 \<le> c" "c \<le> 120"
      by blast
    then show ?thesis using n(1) by (simp add: generateProvablyFairCrash_def Let_def)
  qed
  show ?thesis using gen by (simp add: createNewRound_def Let_def)
qed

text \<open>
  C6. The hash and the crash point depend on nothing but the seed and the round
  counter: two engines with the same round counter, whatever else their state, derive
  the same hash and crash point from the same seed; and the round that
  \<^verbatim>\<open>createNewRound\<close> stores can be recomputed from its own seed and round number.
\<close>

theorem crash_derivation_deterministic:
  assumes "roundCounter g1 = roundCounter g2"
  shows "fc_hash (generateProvablyFairCrash sha256 g1 randomHex)
           = fc_hash (generateProvablyFairCrash sha256 g2 randomHex)
       \<and> fc_crashPoint (generateProvablyFairCrash sha256 g1 randomHex)
           = fc_crashPoint (generateProvablyFairCrash sha256 g2 randomHex)
       \<and> fc_seed (generateProvablyFairCrash sha256 g1 randomHex) = randomHex
       \<and> hash (fst (createNewRound sha256 w g1))
           = digestHex (sha256 (seed (fst (createNewRound sha256 w g1))
                                 @ decimalString (roundNumber (fst (createNewRound sha256 w g1)))))
       \<and> crashPoint (fst (createNewRound sha256 w g1))
           = crashPointOfHashInt (parseInt16 (take 13 (hash (fst (createNewRound sha256 w g1)))))"
  using assms by (simp add: generateProvablyFairCrash_def createNewRound_def Let_def)

theorem crash_derivation_deterministic_witness:
  "roundCounter newEngine = roundCounter (newEngine\<lparr>multiplier := 2, gameState := Active\<rparr>)
   \<and> fc_hash (generateProvablyFairCrash fixedDigest newEngine ''ab'')
       = fc_hash (generateProvablyFairCrash fixedDigest
                    (newEngine\<lparr>multiplier := 2, gameState := Active\<rparr>) ''ab'')
   \<and> fc_crashPoint (generateProvablyFairCrash fixedDigest newEngine ''ab'')
       = fc_crashPoint (generateProvablyFairCrash fixedDigest
                    (newEngine\<lparr>multiplier := 2, gameState := Active\<rparr>) ''ab'')"
proof -
  have h: "roundCounter newEngine = roundCounter (newEngine\<lparr>multiplier := 2, gameState := Active\<rparr>)"
    by simp
  show ?thesis
    using h crash_derivation_deterministic [OF h, of fixedDigest "''ab''" sampleWorld] by simp
qed

text \<open>
  C10. For every value \<open>H\<close> of the 13 leading hexadecimal digits of a hash (from 0 to
  \<open>2\<^sup>5\<^sup>2 - 1\<close>; the digits of a digest always parse to such a value) the crash point is
  at least 1.71, above the lower clamp 1.01. For \<open>H = 0\<close> the cube root is 0, the
  division gives infinity, and the crash point is the cap 120.
\<close>

theorem crashPoint_lower_bound:
  "(\<forall>H. H < 2 ^ 52 \<longrightarrow> (\<exists>c. crashPointOfHashInt (Fin (real H)) = Fin c \<and> 1.71 \<le> c))
   \<and> (\<exists>H. H < 2 ^ 52 \<and> parseInt16 (take 13 (digestHex d)) = Fin (real H))
   \<and> js_pow (js_div (Fin 0) (js_pow (Fin 2) (Fin 52))) (Fin (1 / 3)) = Fin 0
   \<and> js_div (Fin (100 * 2.718281828 - 100)) (Fin 0) = PosInf
   \<and> crashPointOfHashInt (Fin 0) = Fin 120"
proof -
  have "\<exists>c. crashPointOfHashInt (Fin (real H)) = Fin c \<and> 1.71 \<le> c" if "H < 2 ^ 52" for H :: nat
  proof (cases "H = 0")
    case True
    then show ?thesis by (simp add: crashPoint_of_zero)
  next
    case False
    then show ?thesis using crashPoint_of_positive [of H] that by auto
  qed
  moreover have "\<exists>H. H < 2 ^ 52 \<and> parseInt16 (take 13 (digestHex d)) = Fin (real H)"
    using hashInt_range [of d] by blast
  ultimately show ?thesis by (simp add: crashPoint_of_zero)
qed

theorem crashPoint_lower_bound_witness:
  "(4503599627370495 :: nat) < 2 ^ 52
   \<and> (\<exists>c. crashPointOfHashInt (Fin (real (4503599627370495 :: nat))) = Fin c \<and> 1.71 \<le> c)"
proof -
  have h: "(4503599627370495 :: nat) < 2 ^ 52" by simp
  show ?thesis using h crashPoint_lower_bound [of 0] by blast
qed

section \<open>The scenario of a bet and a cash-out\<close>

lemma findIndex_append_last:
  "\<forall>x \<in> set xs. \<not> P x \<Longrightarrow> P y \<Longrightarrow> findIndex P (xs @ [y]) = Some (length xs)"
  by (induction xs) auto

lemma convertUsdToCrypto_BTC:
  "BTC p \<noteq> 0 \<Longrightarrow> convertUsdToCrypto p usd ''BTC'' =
     Inr \<lparr>conv_cryptoAmount = usd / BTC p, conv_priceAtTime = BTC p, conv_timestamp = pricesTimestamp p\<rparr>"
  by (simp add: convertUsdToCrypto_def cryptoSymbolOf_def cryptoMapping_def priceOf_def)

lemma convertCryptoToUsd_BTC:
  "BTC p \<noteq> 0 \<Longrightarrow> convertCryptoToUsd p amount ''BTC'' =
     Inr \<lparr>conv_usdAmount = amount * BTC p, usd_priceAtTime = BTC p, usd_timestamp = pricesTimestamp p\<rparr>"
  by (simp add: convertCryptoToUsd_def cryptoSymbolOf_def cryptoMapping_def priceOf_def)

lemma initialize_keeps:
  "gameState (initialize g db) = gameState g"
  "currentRound (initialize g db) = currentRound g"
  "sessions (initialize g db) = sessions g"
  "multiplier (initialize g db) = multiplier g"
  by (simp_all add: initialize_def split: db_latest.splits)

text \<open>
  C1, amended. A session with balance 1000 and no bet stakes 100 on BTC at the price
  50000 in the betting phase: the bet holds 0.002 BTC and the balance is 900. When the
  round has started and the multiplier stands at 3, cashing out at the price 50000
  returns winAmount 300 and profit 200, and the balance is 900 + 300 = 1200 (the claim
  says 1100: the whole win amount is credited, not the profit).
\<close>

theorem bet_100_cash_out_at_3:
  assumes st: "gameState g = Betting" and rd: "currentRound g = Some r"
      and fresh: "sid \<notin> betSessionId ` set (activeBets r)"
      and ss: "sessions g sid = Some s" and bal: "balance s = 1000" and cb: "currentBet s = None"
      and p1: "BTC (w_prices w) = 50000" and p2: "BTC (w_prices w') = 50000"
  shows "\<exists>res g1. placeBet sha256 w g sid 100 ''BTC'' None = (Inr res, g1)
        \<and> conv_cryptoAmount (br_conversion res) = 0.002 \<and> br_newBalance res = 900
        \<and> map_option balance (sessions g1 sid) = Some 900
        \<and> (\<exists>out g3. cashOut w' ((startRound sha256 w'' g1)\<lparr>multiplier := 3\<rparr>) sid = (Inr out, g3)
              \<and> co_winAmount out = 300 \<and> co_profit out = 200 \<and> co_newBalance out = 1200
              \<and> map_option balance (sessions g3 sid) = Some 1200)"
proof -
  define b where "b = \<lparr>betSessionId = sid, betPlayerName = playerName s, betUsdAmount = 100,
       betCryptoAmount = 100 / 50000, betCryptocurrency = ''BTC'', cashedOut = False,
       cashoutMultiplier = None, cashoutTime = None, betTime = w_now w\<rparr>"
  define cbet where "cbet = \<lparr>roundId = oid r, usdAmount = 100, cryptoAmount = 100 / 50000,
       cryptocurrency = ''BTC'', priceAtBet = 50000, isActive = True\<rparr>"
  define s1 where "s1 = s\<lparr>balance := 900, totalBets := totalBets s + 1, currentBet := Some cbet\<rparr>"
  define r1 where "r1 = r\<lparr>activeBets := activeBets r @ [b], roundTotalBets := roundTotalBets r + 100,
       totalPlayers := length (remdups (map betSessionId (activeBets r @ [b])))\<rparr>"
  define g1 where "g1 = (initialize g (w_db w))\<lparr>currentRound := Some r1,
       sessions := (sessions g)(sid \<mapsto> s1)\<rparr>"
  define res where "res = \<lparr>br_bet = cbet,
       br_conversion = \<lparr>conv_cryptoAmount = 100 / 50000, conv_priceAtTime = 50000,
                        conv_timestamp = pricesTimestamp (w_prices w)\<rparr>,
       br_newBalance = 900\<rparr>"
  have pb: "placeBet sha256 w g sid 100 ''BTC'' None = (Inr res, g1)"
    using st rd ss bal cb p1
    by (simp add: Let_def placeBet_def recordBet_def ensureRound_def initialize_keeps getSession_def givenName_def
        convertUsdToCrypto_BTC res_def g1_def r1_def s1_def cbet_def b_def)
  define g2 where "g2 = (startRound sha256 w'' g1)\<lparr>multiplier := 3\<rparr>"
  define r2 where "r2 = r1\<lparr>status := Active, startTime := Some (w_now w'')\<rparr>"
  have g2: "gameState g2 = Active" "currentRound g2 = Some r2" "sessions g2 = (sessions g)(sid \<mapsto> s1)"
       "multiplier g2 = 3"
    by (simp_all add: Let_def g2_def startRound_def ensureRound_def g1_def r2_def)
  have nb: "\<forall>x \<in> set (activeBets r). \<not> (betSessionId x = sid \<and> \<not> cashedOut x)"
    using fresh by auto
  have fi: "findIndex (\<lambda>b. betSessionId b = sid \<and> \<not> cashedOut b) (activeBets r2) = Some (length (activeBets r))"
    unfolding r2_def r1_def using findIndex_append_last [OF nb, of b] by (simp add: b_def)
  define p where "p = \<lparr>cp_session = s1, cp_betIndex = length (activeBets r), cp_bet = b,
       cp_winAmount = (100 / 50000) * 3\<rparr>"
  have cb1: "cashOut_begin g2 (w_now w') sid = (Inr p, g2)"
    using g2 fi
    by (simp add: Let_def cashOut_begin_def getSession_def givenName_def s1_def cbet_def p_def r2_def r1_def b_def)
  define conv where "conv = \<lparr>conv_usdAmount = 300, usd_priceAtTime = 50000,
       usd_timestamp = pricesTimestamp (w_prices w')\<rparr>"
  have cv: "convertCryptoToUsd (w_prices w') (cp_winAmount p) (betCryptocurrency (cp_bet p)) = Inr conv"
    using p2 by (simp add: convertCryptoToUsd_BTC p_def b_def conv_def)
  obtain g3 where ac: "cashOut_afterConversion g2 (w_now w') p conv = (Inr 200, g3)"
      and g3: "sessions g3 = sessions g2" "multiplier g3 = 3"
    using g2 by (simp add: Let_def cashOut_afterConversion_def p_def conv_def b_def r2_def r1_def)
  define s2 where "s2 = s1\<lparr>balance := 1200, totalWins := totalWins s + 1,
       totalWinnings := totalWinnings s + 200, currentBet := Some (cbet\<lparr>isActive := False\<rparr>)\<rparr>"
  have asv: "cashOut_afterSave g3 sid p conv 200 =
      (Inr \<lparr>co_multiplier = 3, co_winAmount = 300, co_profit = 200, co_newBalance = 1200\<rparr>,
       g3\<lparr>sessions := (sessions g3)(sid \<mapsto> s2)\<rparr>)"
    using g3 g2 by (simp add: Let_def cashOut_afterSave_def conv_def s1_def s2_def)
  have co: "cashOut w' g2 sid =
      (Inr \<lparr>co_multiplier = 3, co_winAmount = 300, co_profit = 200, co_newBalance = 1200\<rparr>,
       g3\<lparr>sessions := (sessions g3)(sid \<mapsto> s2)\<rparr>)"
    by (simp add: cashOut_def cashOut_resume_def cb1 cv ac asv)
  show ?thesis
    apply (rule exI [of _ res], rule exI [of _ g1])
    apply (simp add: pb)
    apply (intro conjI)
       apply (simp_all add: res_def g1_def s1_def)
    using co unfolding g2_def g1_def by (simp add: s2_def s1_def)
qed



theorem bet_100_cash_out_at_3_witness:
  "\<exists>res g1. placeBet fixedDigest sampleWorld readyEngine ''player-1'' 100 ''BTC'' None = (Inr res, g1)
     \<and> br_newBalance res = 900
     \<and> (\<exists>out g3. cashOut sampleWorld ((startRound fixedDigest sampleWorld g1)\<lparr>multiplier := 3\<rparr>) ''player-1''
                     = (Inr out, g3)
           \<and> co_winAmount out = 300 \<and> co_profit out = 200
           \<and> map_option balance (sessions g3 ''player-1'') = Some 1200)"
proof -
  define r where "r = fst (createNewRound fixedDigest sampleWorld newEngine)"
  define s where "s = fst (getSession (snd (createNewRound fixedDigest sampleWorld newEngine)) 0 ''player-1'' None)"
  have 1: "gameState readyEngine = Betting"
    and 2: "currentRound readyEngine = Some r"
    and 3: "''player-1'' \<notin> betSessionId ` set (activeBets r)"
    and 4: "sessions readyEngine ''player-1'' = Some s"
    and 5: "balance s = 1000" and 6: "currentBet s = None"
    and 7: "BTC (w_prices sampleWorld) = 50000"
    by (simp_all add: readyEngine_def r_def s_def createNewRound_def getSession_def Let_def
        newEngine_def initialize_def sampleWorld_def samplePrices_def)
  from bet_100_cash_out_at_3 [OF 1 2 3 4 5 6 7 7, of fixedDigest sampleWorld]
  show ?thesis by blast
qed

text \<open>
  C1 as stated fails on the sample run: after the cash-out the balance of the player is
  1200, not 1100.
\<close>

theorem balance_after_cash_out_is_not_1100:
  "fst (cashOut sampleWorld atThree ''player-1'')
     = Inr \<lparr>co_multiplier = 3, co_winAmount = 300, co_profit = 200, co_newBalance = 1200\<rparr>
   \<and> map_option balance (sessions (snd (cashOut sampleWorld atThree ''player-1'')) ''player-1'')
       = Some 1200
   \<and> map_option balance (sessions (snd (cashOut sampleWorld atThree ''player-1'')) ''player-1'')
       \<noteq> Some 1100"
  by (simp add: atThree_def afterBet_def Let_def placeBet_def recordBet_def ensureRound_def newEngine_def initialize_def
      sampleWorld_def samplePrices_def createNewRound_def getSession_def givenName_def
      convertUsdToCrypto_def cryptoSymbolOf_def cryptoMapping_def priceOf_def startRound_def
      cashOut_def cashOut_resume_def cashOut_begin_def convertCryptoToUsd_def
      cashOut_afterConversion_def cashOut_afterSave_def)


section \<open>The phase gate of placeBet\<close>

lemma convertUsdToCrypto_error:
  "convertUsdToCrypto p usd c = Inl e \<Longrightarrow> e = PriceError c"
  by (auto simp: convertUsdToCrypto_def split: option.splits if_splits)

lemma placeBet_refused_phase:
  assumes "gameState g \<noteq> Betting" "gameState g \<noteq> Waiting"
  shows "placeBet sha256 w g sid usd crypto pn =
           (Inl (StateError (''Betting is not allowed at this time. Current state: ''
                              @ statusString (gameState g))), initialize g (w_db w))"
  using assms by (simp add: placeBet_def recordBet_def ensureRound_def Let_def initialize_keeps)

lemma placeBet_allowed_phase:
  assumes "gameState g = Betting \<or> gameState g = Waiting"
  shows "fst (placeBet sha256 w g sid usd crypto pn) \<noteq> Inl (StateError m)"
proof -
  have ok: "\<not> (gameState (initialize g (w_db w)) \<noteq> Betting
              \<and> gameState (initialize g (w_db w)) \<noteq> Waiting)"
    using assms by (auto simp: initialize_keeps)
  show ?thesis
    unfolding placeBet_def recordBet_def ensureRound_def Let_def
    using ok
    by (auto split: prod.splits sum.splits option.splits dest: convertUsdToCrypto_error)
qed

text \<open>
  C8. \<^verbatim>\<open>placeBet\<close> fails with the state error exactly when the game state is neither
  \<^verbatim>\<open>betting\<close> nor \<^verbatim>\<open>waiting\<close>; the message then ends with the name of the current
  state, and neither the session table nor the round has changed.
\<close>

theorem placeBet_phase_gate:
  "((\<exists>m. fst (placeBet sha256 w g sid usd crypto pn) = Inl (StateError m))
      = (gameState g \<noteq> Betting \<and> gameState g \<noteq> Waiting))
   \<and> (gameState g \<noteq> Betting \<and> gameState g \<noteq> Waiting \<longrightarrow>
        fst (placeBet sha256 w g sid usd crypto pn)
          = Inl (StateError (''Betting is not allowed at this time. Current state: ''
                              @ statusString (gameState g)))
        \<and> sessions (snd (placeBet sha256 w g sid usd crypto pn)) = sessions g
        \<and> currentRound (snd (placeBet sha256 w g sid usd crypto pn)) = currentRound g)"
proof (cases "gameState g = Betting \<or> gameState g = Waiting")
  case True
  then show ?thesis using placeBet_allowed_phase [OF True] by auto
next
  case False
  then have "gameState g \<noteq> Betting" "gameState g \<noteq> Waiting" by auto
  from placeBet_refused_phase [OF this] show ?thesis
    using False by (simp add: initialize_keeps)
qed

theorem placeBet_phase_gate_witness:
  "fst (placeBet fixedDigest sampleWorld atThree ''player-2'' 10 ''BTC'' None)
     = Inl (StateError ''Betting is not allowed at this time. Current state: active'')
   \<and> sessions (snd (placeBet fixedDigest sampleWorld atThree ''player-2'' 10 ''BTC'' None))
       = sessions atThree
   \<and> currentRound (snd (placeBet fixedDigest sampleWorld atThree ''player-2'' 10 ''BTC'' None))
       = currentRound atThree"
proof -
  have st: "gameState atThree = Active"
    by (simp add: atThree_def startRound_def ensureRound_def Let_def split: prod.splits option.splits)
  then have h: "gameState atThree \<noteq> Betting \<and> gameState atThree \<noteq> Waiting" by simp
  show ?thesis
    using h st placeBet_phase_gate [of fixedDigest sampleWorld atThree "''player-2''" 10 "''BTC''" None]
    by simp
qed

section \<open>The crash\<close>

lemma withBetInactive_keeps:
  "balance (withBetInactive s) = balance s"
  "totalBets (withBetInactive s) = totalBets s"
  "totalWins (withBetInactive s) = totalWins s"
  "totalWinnings (withBetInactive s) = totalWinnings s"
  "playerName (withBetInactive s) = playerName s"
  "sessionId (withBetInactive s) = sessionId s"
  "joinedAt (withBetInactive s) = joinedAt s"
  "withBetInactive (withBetInactive s) = withBetInactive s"
  by (simp_all add: withBetInactive_def option.map_comp comp_def)

lemma forfeitBet_sessions:
  "sessions (forfeitBet g b) =
     (\<lambda>sid. if sid = betSessionId b then map_option withBetInactive (sessions g sid)
            else sessions g sid)"
  by (rule ext) (auto simp: forfeitBet_def withBetInactive_def split: option.splits)

lemma forfeitBet_keeps:
  "currentRound (forfeitBet g b) = currentRound g"
  "gameState (forfeitBet g b) = gameState g"
  "multiplier (forfeitBet g b) = multiplier g"
  "roundCounter (forfeitBet g b) = roundCounter g"
  by (simp_all add: forfeitBet_def split: option.splits)

lemma foldl_forfeitBet_keeps:
  "currentRound (foldl forfeitBet g bs) = currentRound g
   \<and> gameState (foldl forfeitBet g bs) = gameState g
   \<and> multiplier (foldl forfeitBet g bs) = multiplier g
   \<and> roundCounter (foldl forfeitBet g bs) = roundCounter g"
  by (induction bs arbitrary: g) (simp_all add: forfeitBet_keeps)

lemma foldl_forfeitBet_sessions:
  "sessions (foldl forfeitBet g bs) =
     (\<lambda>sid. if sid \<in> betSessionId ` set bs then map_option withBetInactive (sessions g sid)
            else sessions g sid)"
proof (induction bs arbitrary: g)
  case Nil
  then show ?case by simp
next
  case (Cons b bs)
  show ?case
    by (rule ext)
       (simp add: Cons.IH forfeitBet_sessions option.map_comp comp_def withBetInactive_keeps)
qed

lemma crashGame_effect:
  assumes "currentRound g = Some r"
  shows "fst (crashGame g now) = Inr ()"
    and "gameState (snd (crashGame g now)) = Crashed"
    and "currentRound (snd (crashGame g now)) = Some (r\<lparr>status := Crashed, crashTime := Some now\<rparr>)"
    and "multiplier (snd (crashGame g now)) = multiplier g"
    and "sessions (snd (crashGame g now)) =
          (\<lambda>sid. if sid \<in> betSessionId ` {b \<in> set (activeBets r). \<not> cashedOut b}
                 then map_option withBetInactive (sessions g sid) else sessions g sid)"
proof -
  show "fst (crashGame g now) = Inr ()"
    and "gameState (snd (crashGame g now)) = Crashed"
    and "currentRound (snd (crashGame g now)) = Some (r\<lparr>status := Crashed, crashTime := Some now\<rparr>)"
    and "multiplier (snd (crashGame g now)) = multiplier g"
    using assms
    by (simp_all add: crashGame_def processUncastedBets_def Let_def foldl_forfeitBet_keeps)
  show "sessions (snd (crashGame g now)) =
          (\<lambda>sid. if sid \<in> betSessionId ` {b \<in> set (activeBets r). \<not> cashedOut b}
                 then map_option withBetInactive (sessions g sid) else sessions g sid)"
    using assms
    by (intro ext)
       (simp add: crashGame_def processUncastedBets_def Let_def foldl_forfeitBet_sessions)
qed





section \<open>Validation of a bet request\<close>

text \<open>
  The HTTP controller rejects a request whose amount is missing, zero or negative before
  it calls the engine: the engine is as it was.
\<close>

lemma placeBetController_validates:
  assumes "rq_usdAmount body = None \<or> (\<exists>u. rq_usdAmount body = Some u \<and> u \<le> 0)"
  shows "\<exists>m. placeBetController sha256 w g body = (Inl (ValidationError m), g)"
  using assms
  by (auto simp: placeBetController_def split: option.splits)

text \<open>
  The handler of the web socket has no such check, and the engine has none either: a
  \<^verbatim>\<open>place_bet\<close> message never ends in a validation error.
\<close>

lemma placeBet_never_validates:
  "fst (placeBet sha256 w g sid usd crypto pn) \<noteq> Inl (ValidationError m)"
  unfolding placeBet_def recordBet_def ensureRound_def Let_def
  by (auto split: prod.splits sum.splits option.splits dest: convertUsdToCrypto_error)

lemma handlePlaceBetMessage_never_validates:
  "fst (handlePlaceBetMessage sha256 w g sid m) \<noteq> Inl (ValidationError msg)"
  by (simp add: handlePlaceBetMessage_def placeBet_never_validates)

text \<open>
  C7 fails on the web socket. A \<^verbatim>\<open>place_bet\<close> message with \<^verbatim>\<open>usdAmount\<close> = -100 from a
  new player is accepted: a bet of -100 is appended to the round and the balance rises
  from 1000 to 1100. The same request over HTTP is rejected and changes nothing.
\<close>

theorem negative_bet_accepted_on_socket:
  "(\<exists>res. fst (handlePlaceBetMessage fixedDigest sampleWorld newEngine ''player-1''
              \<lparr>msg_usdAmount = - 100, msg_cryptocurrency = ''BTC'', msg_playerName = None\<rparr>)
           = Inr res \<and> br_newBalance res = 1100)
   \<and> map_option balance
        (sessions (snd (handlePlaceBetMessage fixedDigest sampleWorld newEngine ''player-1''
              \<lparr>msg_usdAmount = - 100, msg_cryptocurrency = ''BTC'', msg_playerName = None\<rparr>))
           ''player-1'') = Some 1100
   \<and> map_option (map betUsdAmount \<circ> activeBets)
        (currentRound (snd (handlePlaceBetMessage fixedDigest sampleWorld newEngine ''player-1''
              \<lparr>msg_usdAmount = - 100, msg_cryptocurrency = ''BTC'', msg_playerName = None\<rparr>)))
       = Some [- 100]
   \<and> placeBetController fixedDigest sampleWorld newEngine
        \<lparr>rq_sessionId = Some ''player-1'', rq_usdAmount = Some (- 100),
         rq_cryptocurrency = Some ''BTC'', rq_playerName = None\<rparr>
       = (Inl (ValidationError ''Bet amount must be positive''), newEngine)"
  by (simp add: handlePlaceBetMessage_def placeBetController_def Let_def placeBet_def recordBet_def ensureRound_def
      newEngine_def initialize_def sampleWorld_def samplePrices_def createNewRound_def
      getSession_def givenName_def convertUsdToCrypto_def cryptoSymbolOf_def cryptoMapping_def
      priceOf_def)


section \<open>What a cash-out does\<close>

lemma findIndex_Some:
  "findIndex P xs = Some i \<Longrightarrow> i < length xs \<and> P (xs ! i)"
proof (induction xs arbitrary: i)
  case Nil
  then show ?case by simp
next
  case (Cons x xs)
  show ?case
  proof (cases "P x")
    case True
    with Cons.prems show ?thesis by simp
  next
    case False
    with Cons.prems obtain j where j: "findIndex P xs = Some j" "i = Suc j" by auto
    from Cons.IH [OF j(1)] j(2) show ?thesis by simp
  qed
qed

lemma getSession_existing:
  "sessions g sid = Some s \<Longrightarrow> getSession g now sid None = (s, g)"
  by (simp add: getSession_def givenName_def)

lemma getSession_new:
  "sessions g sid = None \<Longrightarrow>
     currentBet (fst (getSession g now sid pn)) = None
     \<and> balance (fst (getSession g now sid pn)) = 1000
     \<and> sessions (snd (getSession g now sid pn)) = (sessions g)(sid \<mapsto> fst (getSession g now sid pn))"
  by (simp add: getSession_def Let_def)

lemma cashOut_begin_Inr:
  assumes "cashOut_begin g now sid = (Inr p, g1)"
  shows "g1 = g \<and> gameState g = Active
     \<and> (\<exists>s cb r. sessions g sid = Some s \<and> cp_session p = s \<and> currentBet s = Some cb
           \<and> isActive cb \<and> currentRound g = Some r
           \<and> findIndex (\<lambda>b. betSessionId b = sid \<and> \<not> cashedOut b) (activeBets r)
                = Some (cp_betIndex p)
           \<and> cp_bet p = activeBets r ! cp_betIndex p
           \<and> cp_winAmount p = betCryptoAmount (cp_bet p) * multiplier g)"
proof (cases "sessions g sid")
  case None
  from getSession_new [OF None, of now None] assms show ?thesis
    by (auto simp: cashOut_begin_def Let_def split: if_splits prod.splits)
next
  case (Some s)
  from assms Some show ?thesis
    by (auto simp: cashOut_begin_def Let_def getSession_existing [OF Some]
        split: if_splits option.splits)
qed

text \<open>A cash-out that returns: what it found, and the engine it leaves.\<close>

lemma cashOut_Inr:
  assumes "cashOut w g sid = (Inr out, g')"
  shows "\<exists>s cb r i price.
       gameState g = Active \<and> sessions g sid = Some s \<and> currentBet s = Some cb \<and> isActive cb
     \<and> currentRound g = Some r
     \<and> findIndex (\<lambda>b. betSessionId b = sid \<and> \<not> cashedOut b) (activeBets r) = Some i
     \<and> priceOf (w_prices w) (cryptoSymbolOf (betCryptocurrency (activeBets r ! i))) = Some price
     \<and> price \<noteq> 0
     \<and> co_winAmount out = betCryptoAmount (activeBets r ! i) * multiplier g * price
     \<and> co_profit out = co_winAmount out - betUsdAmount (activeBets r ! i)
     \<and> co_newBalance out = balance s + co_winAmount out
     \<and> g' = g\<lparr>currentRound := Some (r\<lparr>activeBets := (activeBets r)[i := (activeBets r ! i)
                     \<lparr>cashedOut := True, cashoutMultiplier := Some (multiplier g),
                      cashoutTime := Some (w_now w)\<rparr>]\<rparr>),
               sessions := (sessions g)(sid \<mapsto> s\<lparr>balance := balance s + co_winAmount out,
                     totalWins := totalWins s + 1,
                     totalWinnings := totalWinnings s + co_profit out,
                     currentBet := Some (cb\<lparr>isActive := False\<rparr>)\<rparr>)\<rparr>"
proof -
  from assms obtain p g1 where b: "cashOut_begin g (w_now w) sid = (Inr p, g1)"
      and r: "cashOut_resume w g1 sid p = (Inr out, g')"
    by (auto simp: cashOut_def split: prod.splits sum.splits)
  from cashOut_begin_Inr [OF b] obtain s cb r0 where
      g1: "g1 = g" and st: "gameState g = Active"
      and s: "sessions g sid = Some s" "currentBet s = Some cb" "isActive cb"
      and rd: "currentRound g = Some r0"
      and fi: "findIndex (\<lambda>b. betSessionId b = sid \<and> \<not> cashedOut b) (activeBets r0) = Some (cp_betIndex p)"
      and pb: "cp_bet p = activeBets r0 ! cp_betIndex p"
      and pw: "cp_winAmount p = betCryptoAmount (cp_bet p) * multiplier g"
    by blast
  from findIndex_Some [OF fi] have lt: "cp_betIndex p < length (activeBets r0)" by simp
  from r obtain conv where cv: "convertCryptoToUsd (w_prices w) (cp_winAmount p) (betCryptocurrency (cp_bet p)) = Inr conv"
    by (auto simp: cashOut_resume_def split: sum.splits)
  then obtain price where pr: "priceOf (w_prices w) (cryptoSymbolOf (betCryptocurrency (cp_bet p))) = Some price"
      "price \<noteq> 0" "conv_usdAmount conv = cp_winAmount p * price"
    by (auto simp: convertCryptoToUsd_def split: option.splits if_splits)
  define b' where "b' = (activeBets r0 ! cp_betIndex p)
       \<lparr>cashedOut := True, cashoutMultiplier := Some (multiplier g), cashoutTime := Some (w_now w)\<rparr>"
  define g2 where "g2 = g\<lparr>currentRound := Some (r0\<lparr>activeBets := (activeBets r0)[cp_betIndex p := b']\<rparr>)\<rparr>"
  define profit where "profit = conv_usdAmount conv - betUsdAmount (cp_bet p)"
  have ac: "cashOut_afterConversion g (w_now w) p conv = (Inr profit, g2)"
    using rd lt by (simp add: cashOut_afterConversion_def Let_def g2_def b'_def profit_def)
  have g2s: "sessions g2 sid = Some s" "multiplier g2 = multiplier g"
    using s(1) by (simp_all add: g2_def)
  define s2 where "s2 = s\<lparr>balance := balance s + conv_usdAmount conv,
       totalWins := totalWins s + 1, totalWinnings := totalWinnings s + profit,
       currentBet := Some (cb\<lparr>isActive := False\<rparr>)\<rparr>"
  have asv: "cashOut_afterSave g2 sid p conv profit =
      (Inr \<lparr>co_multiplier = multiplier g, co_winAmount = conv_usdAmount conv,
             co_profit = profit, co_newBalance = balance s + conv_usdAmount conv\<rparr>,
       g2\<lparr>sessions := (sessions g2)(sid \<mapsto> s2)\<rparr>)"
    using g2s s(2) by (simp add: cashOut_afterSave_def Let_def s2_def)
  have res: "cashOut_resume w g sid p = cashOut_afterSave g2 sid p conv profit"
    by (simp add: cashOut_resume_def cv ac)
  from r res asv have out: "out = \<lparr>co_multiplier = multiplier g, co_winAmount = conv_usdAmount conv,
             co_profit = profit, co_newBalance = balance s + conv_usdAmount conv\<rparr>"
      and g': "g' = g2\<lparr>sessions := (sessions g2)(sid \<mapsto> s2)\<rparr>"
    by (simp_all add: g1)
  have win: "conv_usdAmount conv = betCryptoAmount (activeBets r0 ! cp_betIndex p) * multiplier g * price"
    using pr(3) pw pb by simp
  show ?thesis
    apply (rule exI [of _ s], rule exI [of _ cb], rule exI [of _ r0])
    apply (rule exI [of _ "cp_betIndex p"], rule exI [of _ price])
    using st s rd fi pr(1,2) win
    by (simp add: out g' g2_def s2_def b'_def profit_def pb)
qed

text \<open>
  Run one after the other, a second cash-out of the same session in the same active
  round finds no active bet and changes nothing.
\<close>

lemma second_cashOut_in_sequence_fails:
  assumes "cashOut w g sid = (Inr out, g')"
  shows "cashOut w' g' sid = (Inl (NotFoundError ''No active bet found''), g')"
proof -
  from cashOut_Inr [OF assms] obtain s cb where
    "gameState g' = Active" "sessions g' sid = Some s" "currentBet s = Some cb" "\<not> isActive cb"
    by auto
  then show ?thesis
    by (simp add: cashOut_def cashOut_begin_def getSession_existing Let_def)
qed

text \<open>
  C3 fails when two requests overlap. On the sample run (a stake of 100 on BTC, the
  multiplier at 3, the price at 50000) a second \<^verbatim>\<open>cashOut\<close> of the same session that
  is received while the first waits for its price conversion passes the same checks:
  both calls succeed, each credits 300, and the balance ends at 1500 instead of 1200.
\<close>

theorem overlapping_cash_outs_pay_twice:
  "fst (overlappingCashOuts sampleWorld sampleWorld atThree ''player-1'')
     = Inr \<lparr>co_multiplier = 3, co_winAmount = 300, co_profit = 200, co_newBalance = 1200\<rparr>
   \<and> fst (snd (overlappingCashOuts sampleWorld sampleWorld atThree ''player-1''))
     = Inr \<lparr>co_multiplier = 3, co_winAmount = 300, co_profit = 200, co_newBalance = 1500\<rparr>
   \<and> map_option balance
        (sessions (snd (snd (overlappingCashOuts sampleWorld sampleWorld atThree ''player-1'')))
           ''player-1'') = Some 1500"
  by (simp add: overlappingCashOuts_def atThree_def afterBet_def Let_def placeBet_def recordBet_def ensureRound_def
      newEngine_def initialize_def sampleWorld_def samplePrices_def createNewRound_def
      getSession_def givenName_def convertUsdToCrypto_def cryptoSymbolOf_def cryptoMapping_def
      priceOf_def startRound_def cashOut_resume_def cashOut_begin_def convertCryptoToUsd_def
      cashOut_afterConversion_def cashOut_afterSave_def)



section \<open>Balances stay non-negative\<close>

lemma createNewRound_effect:
  "activeBets (fst (createNewRound sha256 w g)) = []"
  "oid (fst (createNewRound sha256 w g)) = w_oid w"
  "currentRound (snd (createNewRound sha256 w g)) = Some (fst (createNewRound sha256 w g))"
  "gameState (snd (createNewRound sha256 w g)) = Betting"
  "sessions (snd (createNewRound sha256 w g)) = sessions g"
  "multiplier (snd (createNewRound sha256 w g)) = multiplier g"
  by (simp_all add: createNewRound_def Let_def initialize_keeps)

lemma ensureRound_effect:
  "currentRound (snd (ensureRound sha256 w g)) = Some (fst (ensureRound sha256 w g))"
  "sessions (snd (ensureRound sha256 w g)) = sessions g"
  "multiplier (snd (ensureRound sha256 w g)) = multiplier g"
  "gameState (snd (ensureRound sha256 w g))
     = (case currentRound g of None \<Rightarrow> Betting | Some r \<Rightarrow> gameState g)"
  "currentRound g = None \<Longrightarrow> activeBets (fst (ensureRound sha256 w g)) = []"
  "currentRound g = Some r \<Longrightarrow> ensureRound sha256 w g = (r, g)"
  by (simp_all add: ensureRound_def createNewRound_effect split: option.splits)

lemma getSession_effect:
  "sessions (snd (getSession g now sid pn)) = (sessions g)(sid \<mapsto> fst (getSession g now sid pn))"
  "currentRound (snd (getSession g now sid pn)) = currentRound g"
  "gameState (snd (getSession g now sid pn)) = gameState g"
  "multiplier (snd (getSession g now sid pn)) = multiplier g"
  "balance (fst (getSession g now sid pn)) = (case sessions g sid of None \<Rightarrow> 1000 | Some s \<Rightarrow> balance s)"
  "currentBet (fst (getSession g now sid pn)) = (case sessions g sid of None \<Rightarrow> None | Some s \<Rightarrow> currentBet s)"
  by (auto simp: getSession_def Let_def split: option.splits)

text \<open>\<^verbatim>\<open>placeBet\<close> in a phase that accepts bets, with its intermediate states named.\<close>

lemma placeBet_allowed:
  assumes "gameState g = Betting \<or> gameState g = Waiting"
  obtains r g2 s g3 where
    "ensureRound sha256 w (initialize g (w_db w)) = (r, g2)"
    "getSession g2 (w_now w) sid pn = (s, g3)"
    "placeBet sha256 w g sid usd crypto pn =
       (if (case currentBet s of None \<Rightarrow> False | Some cb \<Rightarrow> roundId cb = oid r)
        then (Inl (DuplicateBetError ''You already have a bet placed this round''), g3)
        else if balance s < usd
        then (Inl (InsufficientFundsError (balance s) usd), g3)
        else case convertUsdToCrypto (w_prices w) usd crypto of
               Inl e \<Rightarrow> (Inl e, g3)
             | Inr conversion \<Rightarrow>
                 (Inr (fst (recordBet w g3 r s sid usd crypto conversion)),
                  snd (recordBet w g3 r s sid usd crypto conversion)))"
proof -
  obtain r g2 where 1: "ensureRound sha256 w (initialize g (w_db w)) = (r, g2)"
    by (cases "ensureRound sha256 w (initialize g (w_db w))")
  obtain s g3 where 2: "getSession g2 (w_now w) sid pn = (s, g3)"
    by (cases "getSession g2 (w_now w) sid pn")
  have ok: "(gameState (initialize g (w_db w)) \<noteq> Betting
              \<and> gameState (initialize g (w_db w)) \<noteq> Waiting) = False"
    using assms by (auto simp: initialize_keeps)
  have "placeBet sha256 w g sid usd crypto pn =
       (if (case currentBet s of None \<Rightarrow> False | Some cb \<Rightarrow> roundId cb = oid r)
        then (Inl (DuplicateBetError ''You already have a bet placed this round''), g3)
        else if balance s < usd
        then (Inl (InsufficientFundsError (balance s) usd), g3)
        else case convertUsdToCrypto (w_prices w) usd crypto of
               Inl e \<Rightarrow> (Inl e, g3)
             | Inr conversion \<Rightarrow>
                 (Inr (fst (recordBet w g3 r s sid usd crypto conversion)),
                  snd (recordBet w g3 r s sid usd crypto conversion)))"
    unfolding placeBet_def Let_def ok
    by (cases "convertUsdToCrypto (w_prices w) usd crypto") (simp_all add: 1 2 split: prod.splits)
  with 1 2 show ?thesis by (rule that)
qed

lemma recordBet_effect:
  "sessions (snd (recordBet w g r s sid usd crypto conv)) =
     (sessions g)(sid \<mapsto> s\<lparr>balance := balance s - usd, totalBets := totalBets s + 1,
        currentBet := Some \<lparr>roundId = oid r, usdAmount = usd,
                cryptoAmount = conv_cryptoAmount conv, cryptocurrency = crypto,
                priceAtBet = conv_priceAtTime conv, isActive = True\<rparr>\<rparr>)"
  "map_option activeBets (currentRound (snd (recordBet w g r s sid usd crypto conv))) =
     Some (activeBets r @ [\<lparr>betSessionId = sid, betPlayerName = playerName s,
               betUsdAmount = usd, betCryptoAmount = conv_cryptoAmount conv,
               betCryptocurrency = crypto, cashedOut = False,
               cashoutMultiplier = None, cashoutTime = None, betTime = w_now w\<rparr>])"
  "map_option oid (currentRound (snd (recordBet w g r s sid usd crypto conv))) = Some (oid r)"
  "gameState (snd (recordBet w g r s sid usd crypto conv)) = gameState g"
  "multiplier (snd (recordBet w g r s sid usd crypto conv)) = multiplier g"
  by (simp_all add: recordBet_def Let_def)

lemma balancesOk_initialize: "balancesOk g \<Longrightarrow> balancesOk (initialize g db)"
  by (simp add: balancesOk_def initialize_keeps)

lemma balancesOk_createNewRound: "balancesOk g \<Longrightarrow> balancesOk (snd (createNewRound sha256 w g))"
  by (simp add: balancesOk_def createNewRound_effect)

lemma balancesOk_ensureRound: "balancesOk g \<Longrightarrow> balancesOk (snd (ensureRound sha256 w g))"
  by (simp add: ensureRound_def balancesOk_createNewRound split: option.splits)

lemma balancesOk_getSession: "balancesOk g \<Longrightarrow> balancesOk (snd (getSession g now sid pn))"
  unfolding balancesOk_def getSession_effect
  by (auto simp: getSession_effect(5) split: option.splits if_splits)

lemma priceOf_positive:
  "pricesPositive p \<Longrightarrow> priceOf p symbol = Some price \<Longrightarrow> 0 < price"
  by (auto simp: pricesPositive_def priceOf_def split: if_splits)

lemma convertUsdToCrypto_nonneg:
  "pricesPositive p \<Longrightarrow> 0 < usd \<Longrightarrow> convertUsdToCrypto p usd c = Inr conv
     \<Longrightarrow> 0 \<le> conv_cryptoAmount conv"
  by (auto simp: convertUsdToCrypto_def split: option.splits if_splits dest: priceOf_positive)

lemma balancesOk_recordBet:
  assumes "balancesOk g" "currentRound g = Some r" "usd \<le> balance s" "0 \<le> conv_cryptoAmount conv"
  shows "balancesOk (snd (recordBet w g r s sid usd crypto conv))"
  using assms by (auto simp: balancesOk_def recordBet_def Let_def)

lemma balancesOk_placeBet:
  assumes inv: "balancesOk g" and pos: "0 < usd" "pricesPositive (w_prices w)"
  shows "balancesOk (snd (placeBet sha256 w g sid usd crypto pn))"
proof (cases "gameState g = Betting \<or> gameState g = Waiting")
  case False
  then show ?thesis using inv by (simp add: placeBet_refused_phase balancesOk_initialize)
next
  case True
  from placeBet_allowed [OF True, of sha256 w sid pn usd crypto]
  obtain r g2 s g3 where
    1: "ensureRound sha256 w (initialize g (w_db w)) = (r, g2)" and
    2: "getSession g2 (w_now w) sid pn = (s, g3)" and
    3: "placeBet sha256 w g sid usd crypto pn =
       (if (case currentBet s of None \<Rightarrow> False | Some cb \<Rightarrow> roundId cb = oid r)
        then (Inl (DuplicateBetError ''You already have a bet placed this round''), g3)
        else if balance s < usd
        then (Inl (InsufficientFundsError (balance s) usd), g3)
        else case convertUsdToCrypto (w_prices w) usd crypto of
               Inl e \<Rightarrow> (Inl e, g3)
             | Inr conversion \<Rightarrow>
                 (Inr (fst (recordBet w g3 r s sid usd crypto conversion)),
                  snd (recordBet w g3 r s sid usd crypto conversion)))"
    by blast
  have ok2: "balancesOk g2"
    using balancesOk_ensureRound [OF balancesOk_initialize [OF inv], of sha256 w "w_db w"] 1
    by simp
  have ok3: "balancesOk g3"
    using balancesOk_getSession [OF ok2, of "w_now w" sid pn] 2 by simp
  have rd3: "currentRound g3 = Some r"
    using getSession_effect(2) [of g2 "w_now w" sid pn]
          ensureRound_effect(1) [of sha256 w "initialize g (w_db w)"] 1 2 by simp
  show ?thesis
  proof (cases "convertUsdToCrypto (w_prices w) usd crypto")
    case (Inl e)
    then show ?thesis using ok3 by (simp add: 3)
  next
    case (Inr conv)
    from convertUsdToCrypto_nonneg [OF pos(2) pos(1) Inr]
    have c: "0 \<le> conv_cryptoAmount conv" .
    show ?thesis
      using ok3 balancesOk_recordBet [OF ok3 rd3 _ c, of usd s w sid crypto]
      by (simp add: 3 Inr)
  qed
qed



lemma cashOut_begin_Inl:
  "cashOut_begin g now sid = (Inl e, g1) \<Longrightarrow> g1 = g \<or> g1 = snd (getSession g now sid None)"
  by (auto simp: cashOut_begin_def Let_def split: if_splits prod.splits option.splits)

text \<open>
  After its checks an uninterrupted cash-out can only fail in the price conversion,
  and then it has written nothing.
\<close>

lemma cashOut_resume_Inl:
  assumes b: "cashOut_begin g now sid = (Inr p, g1)"
      and r: "cashOut_resume w g1 sid p = (Inl e, g')"
  shows "g' = g"
proof -
  from cashOut_begin_Inr [OF b] obtain s cb r0 where
      g1: "g1 = g"
      and s: "sessions g sid = Some s" "currentBet s = Some cb"
      and rd: "currentRound g = Some r0"
      and fi: "findIndex (\<lambda>b. betSessionId b = sid \<and> \<not> cashedOut b) (activeBets r0) = Some (cp_betIndex p)"
    by blast
  from findIndex_Some [OF fi] have lt: "cp_betIndex p < length (activeBets r0)" by simp
  show ?thesis
  proof (cases "convertCryptoToUsd (w_prices w) (cp_winAmount p) (betCryptocurrency (cp_bet p))")
    case (Inl e1)
    with r show ?thesis by (simp add: cashOut_resume_def g1)
  next
    case (Inr conv)
    have "\<exists>out g''. cashOut_resume w g sid p = (Inr out, g'')"
      using rd lt s
      by (simp add: cashOut_resume_def Inr cashOut_afterConversion_def cashOut_afterSave_def Let_def)
    with r show ?thesis by (simp add: g1)
  qed
qed

lemma cashOut_Inl:
  assumes "cashOut w g sid = (Inl e, g')"
  shows "g' = g \<or> g' = snd (getSession g (w_now w) sid None)"
proof (cases "cashOut_begin g (w_now w) sid")
  case (Pair res g1)
  show ?thesis
  proof (cases res)
    case (Inl e1)
    with Pair assms have "g' = g1" by (simp add: cashOut_def)
    with cashOut_begin_Inl [of g "w_now w" sid e1 g1] Pair Inl show ?thesis by simp
  next
    case (Inr p)
    with Pair assms have "cashOut_resume w g1 sid p = (Inl e, g')" by (simp add: cashOut_def)
    from cashOut_resume_Inl [OF _ this, of g "w_now w"] Pair Inr show ?thesis by simp
  qed
qed

lemma balancesOk_cashOut:
  assumes inv: "balancesOk g" and pos: "pricesPositive (w_prices w)"
  shows "balancesOk (snd (cashOut w g sid))"
proof (cases "cashOut w g sid")
  case (Pair res g')
  show ?thesis
  proof (cases res)
    case (Inl e)
    from cashOut_Inl [of w g sid e g'] Pair Inl
    have "g' = g \<or> g' = snd (getSession g (w_now w) sid None)" by simp
    then show ?thesis using inv balancesOk_getSession [OF inv, of "w_now w" sid None] Pair by auto
  next
    case (Inr out)
    from cashOut_Inr [of w g sid out g'] Pair Inr obtain s cb r i price where
      f: "sessions g sid = Some s" "currentRound g = Some r"
         "findIndex (\<lambda>b. betSessionId b = sid \<and> \<not> cashedOut b) (activeBets r) = Some i"
         "priceOf (w_prices w) (cryptoSymbolOf (betCryptocurrency (activeBets r ! i))) = Some price"
         "co_winAmount out = betCryptoAmount (activeBets r ! i) * multiplier g * price"
      and g': "g' = g\<lparr>currentRound := Some (r\<lparr>activeBets := (activeBets r)[i := (activeBets r ! i)
                     \<lparr>cashedOut := True, cashoutMultiplier := Some (multiplier g),
                      cashoutTime := Some (w_now w)\<rparr>]\<rparr>),
               sessions := (sessions g)(sid \<mapsto> s\<lparr>balance := balance s + co_winAmount out,
                     totalWins := totalWins s + 1,
                     totalWinnings := totalWinnings s + co_profit out,
                     currentBet := Some (cb\<lparr>isActive := False\<rparr>)\<rparr>)\<rparr>"
      by auto
    from findIndex_Some [OF f(3)] have lt: "i < length (activeBets r)" by simp
    then have mem: "activeBets r ! i \<in> set (activeBets r)" by simp
    have c: "0 \<le> betCryptoAmount (activeBets r ! i)"
      using inv f(2) mem by (auto simp: balancesOk_def)
    have m: "0 < multiplier g" using inv by (simp add: balancesOk_def)
    have p: "0 < price" using priceOf_positive [OF pos f(4)] .
    have win: "0 \<le> co_winAmount out" using c m p by (simp add: f(5))
    have bal: "0 \<le> balance s" using inv f(1) by (auto simp: balancesOk_def)
    have bets: "\<forall>b \<in> set ((activeBets r)[i := (activeBets r ! i)
                     \<lparr>cashedOut := True, cashoutMultiplier := Some (multiplier g),
                      cashoutTime := Some (w_now w)\<rparr>]). 0 \<le> betCryptoAmount b"
    proof
      fix b assume "b \<in> set ((activeBets r)[i := (activeBets r ! i)
                     \<lparr>cashedOut := True, cashoutMultiplier := Some (multiplier g),
                      cashoutTime := Some (w_now w)\<rparr>])"
      then have "b \<in> insert ((activeBets r ! i)
                     \<lparr>cashedOut := True, cashoutMultiplier := Some (multiplier g),
                      cashoutTime := Some (w_now w)\<rparr>) (set (activeBets r))"
        using set_update_subset_insert by fastforce
      then show "0 \<le> betCryptoAmount b"
        using c inv f(2) by (auto simp: balancesOk_def)
    qed
    show ?thesis
      using inv win bal bets m Pair
      by (auto simp: g' balancesOk_def)
  qed
qed

lemma balancesOk_startRound: "balancesOk g \<Longrightarrow> balancesOk (startRound sha256 w g)"
proof -
  assume inv: "balancesOk g"
  obtain r g1 where e: "ensureRound sha256 w g = (r, g1)" by (cases "ensureRound sha256 w g")
  have ok1: "balancesOk g1" using balancesOk_ensureRound [OF inv, of sha256 w] e by simp
  have rd: "currentRound g1 = Some r" using ensureRound_effect(1) [of sha256 w g] e by simp
  show ?thesis using ok1 rd by (auto simp: startRound_def e balancesOk_def)
qed

lemma balancesOk_crashGame: "balancesOk g \<Longrightarrow> balancesOk (snd (crashGame g now))"
proof (cases "currentRound g")
  case None
  assume "balancesOk g"
  then show ?thesis using None by (simp add: crashGame_def balancesOk_def)
next
  case (Some r)
  assume inv: "balancesOk g"
  note eff = crashGame_effect [OF Some, of now]
  have "\<forall>sid s. sessions (snd (crashGame g now)) sid = Some s \<longrightarrow> 0 \<le> balance s"
    unfolding eff(5) using inv
    by (auto simp: balancesOk_def withBetInactive_keeps split: if_splits)
  then show ?thesis using inv Some by (auto simp: balancesOk_def eff(3) eff(4))
qed

lemma balancesOk_updateMultiplier: "balancesOk g \<Longrightarrow> balancesOk (snd (updateMultiplier g now))"
proof -
  assume inv: "balancesOk g"
  define g1 where "g1 = g\<lparr>multiplier := exp 1 powr
       (0.08 * (real_of_int (now - (case engineStartTime g of None \<Rightarrow> 0 | Some t \<Rightarrow> t)) / 1000))\<rparr>"
  have ok1: "balancesOk g1" using inv by (simp add: g1_def balancesOk_def)
  have "snd (updateMultiplier g now) = g1 \<or> snd (updateMultiplier g now) = snd (crashGame g1 now)"
    by (auto simp: updateMultiplier_def Let_def g1_def split: option.splits)
  then show ?thesis using ok1 balancesOk_crashGame [OF ok1, of now] by auto
qed

lemma balancesOk_resetForNewRound: "balancesOk g \<Longrightarrow> balancesOk (resetForNewRound g)"
  by (simp add: balancesOk_def resetForNewRound_def)

lemma balancesOk_cleanupSessions: "balancesOk g \<Longrightarrow> balancesOk (cleanupSessions g now)"
  by (auto simp: balancesOk_def cleanupSessions_def split: option.splits if_splits)

lemma balancesOk_step:
  "balancesOk g \<Longrightarrow> validOperation x \<Longrightarrow> balancesOk (step sha256 g x)"
  by (cases x)
     (simp_all add: balancesOk_placeBet balancesOk_cashOut balancesOk_createNewRound
        balancesOk_startRound balancesOk_updateMultiplier balancesOk_resetForNewRound
        balancesOk_getSession balancesOk_cleanupSessions)

lemma balancesOk_run:
  "balancesOk g \<Longrightarrow> list_all validOperation ops \<Longrightarrow> balancesOk (run sha256 g ops)"
  unfolding run_def
  by (induction ops arbitrary: g) (simp_all add: balancesOk_step)

lemma balancesOk_newEngine: "balancesOk newEngine"
  by (simp add: balancesOk_def newEngine_def)



section \<open>One bet per session and round\<close>

lemma oneBetPerSession_initialize: "oneBetPerSession g \<Longrightarrow> oneBetPerSession (initialize g db)"
  by (simp add: oneBetPerSession_def initialize_keeps)

lemma oneBetPerSession_createNewRound: "oneBetPerSession (snd (createNewRound sha256 w g))"
  by (simp add: oneBetPerSession_def createNewRound_effect)

lemma oneBetPerSession_ensureRound:
  "oneBetPerSession g \<Longrightarrow> oneBetPerSession (snd (ensureRound sha256 w g))"
  by (simp add: ensureRound_def oneBetPerSession_createNewRound split: option.splits)

lemma oneBetPerSession_getSession:
  assumes "oneBetPerSession g"
  shows "oneBetPerSession (snd (getSession g now sid pn))"
proof -
  have keep: "\<exists>s cb. sessions (snd (getSession g now sid pn)) x = Some s \<and> currentBet s = Some cb
                 \<and> roundId cb = k \<and> isActive cb"
    if "sessions g x = Some s0" "currentBet s0 = Some cb0" "roundId cb0 = k" "isActive cb0"
    for x s0 cb0 k
    using that by (cases "x = sid") (auto simp: getSession_effect)
  show ?thesis
    unfolding oneBetPerSession_def getSession_effect(2,3)
  proof (intro allI impI conjI)
    fix r assume "currentRound g = Some r"
    then show "distinct (map betSessionId (activeBets r))"
      using assms by (simp add: oneBetPerSession_def)
  next
    fix r assume rd: "currentRound g = Some r" and st: "gameState g = Betting \<or> gameState g = Waiting"
    show "\<forall>b \<in> set (activeBets r). \<exists>s cb. sessions (snd (getSession g now sid pn)) (betSessionId b) = Some s
             \<and> currentBet s = Some cb \<and> roundId cb = oid r \<and> isActive cb"
    proof
      fix b assume "b \<in> set (activeBets r)"
      with assms rd st obtain s0 cb0 where
        "sessions g (betSessionId b) = Some s0" "currentBet s0 = Some cb0"
        "roundId cb0 = oid r" "isActive cb0"
        unfolding oneBetPerSession_def by blast
      then show "\<exists>s cb. sessions (snd (getSession g now sid pn)) (betSessionId b) = Some s
             \<and> currentBet s = Some cb \<and> roundId cb = oid r \<and> isActive cb"
        by (rule keep)
    qed
  qed
qed

lemma oneBetPerSession_recordBet:
  assumes inv: "oneBetPerSession g" and rd: "currentRound g = Some r"
      and st: "gameState g = Betting \<or> gameState g = Waiting"
      and s: "sessions g sid = Some s"
      and nodup: "\<not> (case currentBet s of None \<Rightarrow> False | Some cb \<Rightarrow> roundId cb = oid r)"
  shows "oneBetPerSession (snd (recordBet w g r s sid usd crypto conv))"
proof -
  have link: "\<forall>b \<in> set (activeBets r). \<exists>s cb. sessions g (betSessionId b) = Some s
                \<and> currentBet s = Some cb \<and> roundId cb = oid r \<and> isActive cb"
    and dist: "distinct (map betSessionId (activeBets r))"
    using inv rd st by (auto simp: oneBetPerSession_def)
  have fresh: "sid \<notin> betSessionId ` set (activeBets r)"
  proof
    assume "sid \<in> betSessionId ` set (activeBets r)"
    then obtain b where "b \<in> set (activeBets r)" "betSessionId b = sid" by auto
    with link s obtain cb where "currentBet s = Some cb" "roundId cb = oid r" by fastforce
    with nodup show False by simp
  qed
  have old: "\<exists>s' cb. ((sessions g)(sid \<mapsto> t)) (betSessionId b) = Some s'
                \<and> currentBet s' = Some cb \<and> roundId cb = oid r \<and> isActive cb"
    if "b \<in> set (activeBets r)" for b t
  proof -
    from that fresh have "betSessionId b \<noteq> sid" by auto
    with link that show ?thesis by simp
  qed
  show ?thesis
    using dist fresh old
    by (auto simp: oneBetPerSession_def recordBet_def Let_def)
qed

lemma oneBetPerSession_placeBet:
  assumes inv: "oneBetPerSession g"
  shows "oneBetPerSession (snd (placeBet sha256 w g sid usd crypto pn))"
proof (cases "gameState g = Betting \<or> gameState g = Waiting")
  case False
  then show ?thesis using inv by (simp add: placeBet_refused_phase oneBetPerSession_initialize)
next
  case True
  from placeBet_allowed [OF True, of sha256 w sid pn usd crypto]
  obtain r g2 s g3 where
    1: "ensureRound sha256 w (initialize g (w_db w)) = (r, g2)" and
    2: "getSession g2 (w_now w) sid pn = (s, g3)" and
    3: "placeBet sha256 w g sid usd crypto pn =
       (if (case currentBet s of None \<Rightarrow> False | Some cb \<Rightarrow> roundId cb = oid r)
        then (Inl (DuplicateBetError ''You already have a bet placed this round''), g3)
        else if balance s < usd
        then (Inl (InsufficientFundsError (balance s) usd), g3)
        else case convertUsdToCrypto (w_prices w) usd crypto of
               Inl e \<Rightarrow> (Inl e, g3)
             | Inr conversion \<Rightarrow>
                 (Inr (fst (recordBet w g3 r s sid usd crypto conversion)),
                  snd (recordBet w g3 r s sid usd crypto conversion)))"
    by blast
  have ok2: "oneBetPerSession g2"
    using oneBetPerSession_ensureRound [OF oneBetPerSession_initialize [OF inv], of sha256 w "w_db w"] 1
    by simp
  have ok3: "oneBetPerSession g3"
    using oneBetPerSession_getSession [OF ok2, of "w_now w" sid pn] 2 by simp
  have rd3: "currentRound g3 = Some r"
    using getSession_effect(2) [of g2 "w_now w" sid pn]
          ensureRound_effect(1) [of sha256 w "initialize g (w_db w)"] 1 2 by simp
  have st2: "gameState g2 = Betting \<or> gameState g2 = Waiting"
    using ensureRound_effect(4) [of sha256 w "initialize g (w_db w)"] 1 True
    by (auto simp: initialize_keeps split: option.splits)
  have st3: "gameState g3 = Betting \<or> gameState g3 = Waiting"
    using getSession_effect(3) [of g2 "w_now w" sid pn] 2 st2 by simp
  have s3: "sessions g3 sid = Some s"
    using getSession_effect(1) [of g2 "w_now w" sid pn] 2 by simp
  show ?thesis
  proof (cases "(case currentBet s of None \<Rightarrow> False | Some cb \<Rightarrow> roundId cb = oid r)")
    case True
    then show ?thesis using ok3 by (simp add: 3)
  next
    case nodup: False
    show ?thesis
    proof (cases "convertUsdToCrypto (w_prices w) usd crypto")
      case (Inl e)
      then show ?thesis using ok3 nodup by (simp add: 3)
    next
      case (Inr conv)
      show ?thesis
        using ok3 nodup oneBetPerSession_recordBet [OF ok3 rd3 st3 s3 nodup, of w usd crypto conv]
        by (simp add: 3 Inr)
    qed
  qed
qed

lemma map_betSessionId_update:
  "i < length xs \<Longrightarrow> betSessionId x = betSessionId (xs ! i)
     \<Longrightarrow> map betSessionId (xs[i := x]) = map betSessionId xs"
  by (simp add: map_update list_update_same_conv)

lemma oneBetPerSession_cashOut:
  assumes inv: "oneBetPerSession g"
  shows "oneBetPerSession (snd (cashOut w g sid))"
proof (cases "cashOut w g sid")
  case (Pair res g')
  show ?thesis
  proof (cases res)
    case (Inl e)
    from cashOut_Inl [of w g sid e g'] Pair Inl
    have "g' = g \<or> g' = snd (getSession g (w_now w) sid None)" by simp
    then show ?thesis
      using inv oneBetPerSession_getSession [OF inv, of "w_now w" sid None] Pair by auto
  next
    case (Inr out)
    from cashOut_Inr [of w g sid out g'] Pair Inr obtain s cb r i where
      f: "gameState g = Active" "currentRound g = Some r"
         "findIndex (\<lambda>b. betSessionId b = sid \<and> \<not> cashedOut b) (activeBets r) = Some i"
      and g': "g' = g\<lparr>currentRound := Some (r\<lparr>activeBets := (activeBets r)[i := (activeBets r ! i)
                     \<lparr>cashedOut := True, cashoutMultiplier := Some (multiplier g),
                      cashoutTime := Some (w_now w)\<rparr>]\<rparr>),
               sessions := (sessions g)(sid \<mapsto> s\<lparr>balance := balance s + co_winAmount out,
                     totalWins := totalWins s + 1,
                     totalWinnings := totalWinnings s + co_profit out,
                     currentBet := Some (cb\<lparr>isActive := False\<rparr>)\<rparr>)\<rparr>"
      by auto
    from findIndex_Some [OF f(3)] have lt: "i < length (activeBets r)" by simp
    have same: "map betSessionId ((activeBets r)[i := (activeBets r ! i)
                     \<lparr>cashedOut := True, cashoutMultiplier := Some (multiplier g),
                      cashoutTime := Some (w_now w)\<rparr>]) = map betSessionId (activeBets r)"
      by (rule map_betSessionId_update [OF lt]) simp
    have "distinct (map betSessionId (activeBets r))"
      using inv f(2) by (simp add: oneBetPerSession_def)
    then show ?thesis
      using f(1) Pair by (simp add: g' oneBetPerSession_def same)
  qed
qed

lemma oneBetPerSession_startRound:
  assumes "oneBetPerSession g"
  shows "oneBetPerSession (startRound sha256 w g)"
proof -
  obtain r g1 where e: "ensureRound sha256 w g = (r, g1)" by (cases "ensureRound sha256 w g")
  have ok1: "oneBetPerSession g1" using oneBetPerSession_ensureRound [OF assms, of sha256 w] e by simp
  have rd: "currentRound g1 = Some r" using ensureRound_effect(1) [of sha256 w g] e by simp
  show ?thesis using ok1 rd by (simp add: startRound_def e oneBetPerSession_def)
qed

lemma oneBetPerSession_crashGame:
  assumes "oneBetPerSession g"
  shows "oneBetPerSession (snd (crashGame g now))"
proof (cases "currentRound g")
  case None
  then show ?thesis by (simp add: crashGame_def oneBetPerSession_def)
next
  case (Some r)
  note eff = crashGame_effect [OF Some, of now]
  show ?thesis using assms Some by (simp add: oneBetPerSession_def eff(2) eff(3))
qed

lemma oneBetPerSession_updateMultiplier:
  assumes "oneBetPerSession g"
  shows "oneBetPerSession (snd (updateMultiplier g now))"
proof -
  define g1 where "g1 = g\<lparr>multiplier := exp 1 powr
       (0.08 * (real_of_int (now - (case engineStartTime g of None \<Rightarrow> 0 | Some t \<Rightarrow> t)) / 1000))\<rparr>"
  have ok1: "oneBetPerSession g1" using assms by (simp add: g1_def oneBetPerSession_def)
  have "snd (updateMultiplier g now) = g1 \<or> snd (updateMultiplier g now) = snd (crashGame g1 now)"
    by (auto simp: updateMultiplier_def Let_def g1_def split: option.splits)
  then show ?thesis using ok1 oneBetPerSession_crashGame [OF ok1, of now] by auto
qed

lemma oneBetPerSession_resetForNewRound: "oneBetPerSession (resetForNewRound g)"
  by (simp add: oneBetPerSession_def resetForNewRound_def)

lemma oneBetPerSession_cleanupSessions:
  assumes "oneBetPerSession g"
  shows "oneBetPerSession (cleanupSessions g now)"
proof -
  have keep: "sessions (cleanupSessions g now) x = Some s"
    if "sessions g x = Some s" "currentBet s = Some cb" "isActive cb" for x s cb
    using that by (simp add: cleanupSessions_def)
  have same: "currentRound (cleanupSessions g now) = currentRound g"
             "gameState (cleanupSessions g now) = gameState g"
    by (simp_all add: cleanupSessions_def)
  show ?thesis
    unfolding oneBetPerSession_def same
  proof (intro allI impI conjI)
    fix r assume "currentRound g = Some r"
    then show "distinct (map betSessionId (activeBets r))"
      using assms by (simp add: oneBetPerSession_def)
  next
    fix r assume rd: "currentRound g = Some r" and st: "gameState g = Betting \<or> gameState g = Waiting"
    show "\<forall>b \<in> set (activeBets r). \<exists>s cb. sessions (cleanupSessions g now) (betSessionId b) = Some s
             \<and> currentBet s = Some cb \<and> roundId cb = oid r \<and> isActive cb"
    proof
      fix b assume "b \<in> set (activeBets r)"
      with assms rd st obtain s0 cb0 where
        f: "sessions g (betSessionId b) = Some s0" "currentBet s0 = Some cb0"
        "roundId cb0 = oid r" "isActive cb0"
        unfolding oneBetPerSession_def by blast
      from keep [OF f(1,2,4)] f(2,3,4)
      show "\<exists>s cb. sessions (cleanupSessions g now) (betSessionId b) = Some s
             \<and> currentBet s = Some cb \<and> roundId cb = oid r \<and> isActive cb"
        by blast
    qed
  qed
qed

lemma oneBetPerSession_step: "oneBetPerSession g \<Longrightarrow> oneBetPerSession (step sha256 g x)"
  by (cases x)
     (simp_all add: oneBetPerSession_placeBet oneBetPerSession_cashOut
        oneBetPerSession_createNewRound oneBetPerSession_startRound
        oneBetPerSession_updateMultiplier oneBetPerSession_resetForNewRound
        oneBetPerSession_getSession oneBetPerSession_cleanupSessions)

lemma oneBetPerSession_run: "oneBetPerSession g \<Longrightarrow> oneBetPerSession (run sha256 g ops)"
  unfolding run_def by (induction ops arbitrary: g) (simp_all add: oneBetPerSession_step)

lemma oneBetPerSession_newEngine: "oneBetPerSession newEngine"
  by (simp add: oneBetPerSession_def newEngine_def)



section \<open>Rejected bets\<close>

lemma getSessionInfo_balance:
  "balance (fst (getSessionInfo g t sid)) = (case sessions g sid of None \<Rightarrow> 1000 | Some s \<Rightarrow> balance s)"
  by (simp add: getSessionInfo_def getSession_effect)

lemma getCurrentGameState_bets:
  "gs_activeBets (getCurrentGameState g) = (case currentRound g of None \<Rightarrow> [] | Some r \<Rightarrow> activeBets r)"
  by (simp add: getCurrentGameState_def)

text \<open>
  A bet above the balance of its session (1000 for a session that does not exist yet)
  never succeeds, and the balance and the bets of the round are as before.
\<close>

lemma placeBet_over_balance:
  assumes over: "balance (fst (getSessionInfo g t sid)) < usd"
  shows "\<exists>e. fst (placeBet sha256 w g sid usd crypto pn) = Inl e"
    and "balance (fst (getSessionInfo (snd (placeBet sha256 w g sid usd crypto pn)) t sid))
           = balance (fst (getSessionInfo g t sid))"
    and "gs_activeBets (getCurrentGameState (snd (placeBet sha256 w g sid usd crypto pn)))
           = gs_activeBets (getCurrentGameState g)"
    and "(gameState g = Betting \<or> gameState g = Waiting) \<and> \<not> alreadyBetThisRound w g sid \<longrightarrow>
           fst (placeBet sha256 w g sid usd crypto pn)
             = Inl (InsufficientFundsError (balance (fst (getSessionInfo g t sid))) usd)"
proof -
  have all: "(\<exists>e. fst (placeBet sha256 w g sid usd crypto pn) = Inl e)
     \<and> balance (fst (getSessionInfo (snd (placeBet sha256 w g sid usd crypto pn)) t sid))
           = balance (fst (getSessionInfo g t sid))
     \<and> gs_activeBets (getCurrentGameState (snd (placeBet sha256 w g sid usd crypto pn)))
           = gs_activeBets (getCurrentGameState g)
     \<and> ((gameState g = Betting \<or> gameState g = Waiting) \<and> \<not> alreadyBetThisRound w g sid \<longrightarrow>
           fst (placeBet sha256 w g sid usd crypto pn)
             = Inl (InsufficientFundsError (balance (fst (getSessionInfo g t sid))) usd))"
  proof (cases "gameState g = Betting \<or> gameState g = Waiting")
    case False
    then show ?thesis
      by (simp add: placeBet_refused_phase getSessionInfo_balance getCurrentGameState_bets
          initialize_keeps)
  next
    case True
    from placeBet_allowed [OF True, of sha256 w sid pn usd crypto]
    obtain r g2 s g3 where
      1: "ensureRound sha256 w (initialize g (w_db w)) = (r, g2)" and
      2: "getSession g2 (w_now w) sid pn = (s, g3)" and
      3: "placeBet sha256 w g sid usd crypto pn =
         (if (case currentBet s of None \<Rightarrow> False | Some cb \<Rightarrow> roundId cb = oid r)
          then (Inl (DuplicateBetError ''You already have a bet placed this round''), g3)
          else if balance s < usd
          then (Inl (InsufficientFundsError (balance s) usd), g3)
          else case convertUsdToCrypto (w_prices w) usd crypto of
                 Inl e \<Rightarrow> (Inl e, g3)
               | Inr conversion \<Rightarrow>
                   (Inr (fst (recordBet w g3 r s sid usd crypto conversion)),
                    snd (recordBet w g3 r s sid usd crypto conversion)))"
      by blast
    note e = ensureRound_effect [where ?sha256.0 = sha256 and w = w and g = "initialize g (w_db w)", unfolded 1 fst_conv snd_conv initialize_keeps]
    note gs = getSession_effect [where g = g2 and now = "w_now w" and sid = sid and pn = pn, unfolded 2 fst_conv snd_conv]
    have bal: "balance s = balance (fst (getSessionInfo g t sid))"
      by (simp add: gs(5) e(2) getSessionInfo_balance)
    have cur: "currentBet s = (case sessions g sid of None \<Rightarrow> None | Some s0 \<Rightarrow> currentBet s0)"
      by (simp add: gs(6) e(2))
    have rid: "oid r = (case currentRound g of None \<Rightarrow> w_oid w | Some r0 \<Rightarrow> oid r0)"
    proof (cases "currentRound g")
      case None
      then have "createNewRound sha256 w (initialize g (w_db w)) = (r, g2)"
        using 1 by (simp add: ensureRound_def initialize_keeps)
      then have "oid r = w_oid w"
        using createNewRound_effect(2) [where ?sha256.0 = sha256 and w = w and g = "initialize g (w_db w)"]
        by simp
      with None show ?thesis by simp
    next
      case (Some r0)
      then show ?thesis using 1 by (simp add: ensureRound_def initialize_keeps)
    qed
    have dup: "(case currentBet s of None \<Rightarrow> False | Some cb \<Rightarrow> roundId cb = oid r)
                 = alreadyBetThisRound w g sid"
      by (simp add: alreadyBetThisRound_def cur rid split: option.splits)
    have bets: "gs_activeBets (getCurrentGameState g3) = gs_activeBets (getCurrentGameState g)"
    proof (cases "currentRound g")
      case None
      then show ?thesis using e(1) e(5) by (simp add: getCurrentGameState_bets gs(2))
    next
      case (Some r0)
      then have "r = r0" using 1 by (simp add: ensureRound_def initialize_keeps)
      with Some e(1) show ?thesis by (simp add: getCurrentGameState_bets gs(2))
    qed
    have bal3: "balance (fst (getSessionInfo g3 t sid)) = balance s"
      by (simp add: getSessionInfo_balance gs(1))
    have res: "placeBet sha256 w g sid usd crypto pn =
         (if alreadyBetThisRound w g sid
          then (Inl (DuplicateBetError ''You already have a bet placed this round''), g3)
          else (Inl (InsufficientFundsError (balance s) usd), g3))"
      using over by (simp add: 3 dup bal)
    show ?thesis by (simp add: res bets bal3 bal)
  qed
  from all show "\<exists>e. fst (placeBet sha256 w g sid usd crypto pn) = Inl e" by blast
  from all show "balance (fst (getSessionInfo (snd (placeBet sha256 w g sid usd crypto pn)) t sid))
           = balance (fst (getSessionInfo g t sid))" by blast
  from all show "gs_activeBets (getCurrentGameState (snd (placeBet sha256 w g sid usd crypto pn)))
           = gs_activeBets (getCurrentGameState g)" by blast
  from all show "(gameState g = Betting \<or> gameState g = Waiting) \<and> \<not> alreadyBetThisRound w g sid \<longrightarrow>
           fst (placeBet sha256 w g sid usd crypto pn)
             = Inl (InsufficientFundsError (balance (fst (getSessionInfo g t sid))) usd)" by blast
qed

text \<open>
  Calls that run one after the other and whose writes succeed. In every run of whole
  operations from the constructor, where the bets have positive amounts and the price
  tables positive prices, no balance is negative. A whole \<^verbatim>\<open>placeBet\<close> whose amount
  exceeds the balance of its session is rejected and leaves that balance and the bets
  of the round as they are; the error is the insufficient-balance error when the game
  state accepts bets and the session has no current bet in the current round. Calls
  that overlap are not runs of this kind: see the last section.
\<close>

lemma balances_never_negative_in_sequence:
  "(list_all validOperation ops \<longrightarrow>
      (\<forall>sid s. sessions (run sha256 newEngine ops) sid = Some s \<longrightarrow> 0 \<le> balance s))
   \<and> (balance (fst (getSessionInfo g t sid)) < usd \<longrightarrow>
        (\<exists>e. fst (placeBet sha256 w g sid usd crypto pn) = Inl e)
        \<and> balance (fst (getSessionInfo (snd (placeBet sha256 w g sid usd crypto pn)) t sid))
            = balance (fst (getSessionInfo g t sid))
        \<and> gs_activeBets (getCurrentGameState (snd (placeBet sha256 w g sid usd crypto pn)))
            = gs_activeBets (getCurrentGameState g)
        \<and> ((gameState g = Betting \<or> gameState g = Waiting) \<and> \<not> alreadyBetThisRound w g sid \<longrightarrow>
             fst (placeBet sha256 w g sid usd crypto pn)
               = Inl (InsufficientFundsError (balance (fst (getSessionInfo g t sid))) usd)))"
proof -
  have inv: "\<forall>sid s. sessions (run sha256 newEngine ops) sid = Some s \<longrightarrow> 0 \<le> balance s"
    if "list_all validOperation ops"
    using balancesOk_run [OF balancesOk_newEngine that, of sha256]
    by (simp add: balancesOk_def)
  show ?thesis
    using inv placeBet_over_balance [where g = g and t = t and sid = sid and usd = usd
        and ?sha256.0 = sha256 and w = w and crypto = crypto and pn = pn]
    by blast
qed


section \<open>A second bet in the same round\<close>

lemma placeBet_duplicate:
  assumes st: "gameState g = Betting \<or> gameState g = Waiting"
      and rd: "currentRound g = Some r" and s: "sessions g sid = Some s"
      and cb: "currentBet s = Some cb" "roundId cb = oid r"
  shows "fst (placeBet sha256 w g sid usd crypto pn)
           = Inl (DuplicateBetError ''You already have a bet placed this round'')"
    and "currentRound (snd (placeBet sha256 w g sid usd crypto pn)) = Some r"
    and "map_option balance (sessions (snd (placeBet sha256 w g sid usd crypto pn)) sid)
           = Some (balance s)"
    and "\<forall>x. x \<noteq> sid \<longrightarrow> sessions (snd (placeBet sha256 w g sid usd crypto pn)) x = sessions g x"
proof -
  from placeBet_allowed [OF st, of sha256 w sid pn usd crypto]
  obtain r' g2 s' g3 where
    1: "ensureRound sha256 w (initialize g (w_db w)) = (r', g2)" and
    2: "getSession g2 (w_now w) sid pn = (s', g3)" and
    3: "placeBet sha256 w g sid usd crypto pn =
       (if (case currentBet s' of None \<Rightarrow> False | Some cb \<Rightarrow> roundId cb = oid r')
        then (Inl (DuplicateBetError ''You already have a bet placed this round''), g3)
        else if balance s' < usd
        then (Inl (InsufficientFundsError (balance s') usd), g3)
        else case convertUsdToCrypto (w_prices w) usd crypto of
               Inl e \<Rightarrow> (Inl e, g3)
             | Inr conversion \<Rightarrow>
                 (Inr (fst (recordBet w g3 r' s' sid usd crypto conversion)),
                  snd (recordBet w g3 r' s' sid usd crypto conversion)))"
    by blast
  have e: "r' = r" "g2 = initialize g (w_db w)"
    using 1 rd by (simp_all add: ensureRound_def initialize_keeps)
  note gs = getSession_effect [where g = g2 and now = "w_now w" and sid = sid and pn = pn,
      unfolded 2 fst_conv snd_conv]
  have cur: "currentBet s' = Some cb" "balance s' = balance s"
    using s cb(1) by (simp_all add: gs(5,6) e(2) initialize_keeps)
  have res: "placeBet sha256 w g sid usd crypto pn =
       (Inl (DuplicateBetError ''You already have a bet placed this round''), g3)"
    by (simp add: 3 cur(1) cb(2) e(1))
  show "fst (placeBet sha256 w g sid usd crypto pn)
           = Inl (DuplicateBetError ''You already have a bet placed this round'')"
    by (simp add: res)
  show "currentRound (snd (placeBet sha256 w g sid usd crypto pn)) = Some r"
    using rd by (simp add: res gs(2) e(2) initialize_keeps)
  show "map_option balance (sessions (snd (placeBet sha256 w g sid usd crypto pn)) sid)
           = Some (balance s)"
    by (simp add: res gs(1) cur(2))
  show "\<forall>x. x \<noteq> sid \<longrightarrow> sessions (snd (placeBet sha256 w g sid usd crypto pn)) x = sessions g x"
    by (simp add: res gs(1) e(2) initialize_keeps)
qed

text \<open>
  Calls that run one after the other and whose writes succeed. Let the engine be in any
  state that whole operations lead to from the constructor. While the game state
  accepts bets, a \<^verbatim>\<open>placeBet\<close> of a session that has a bet in the list of the current
  round is rejected with the duplicate-bet error; the round and the balance of the
  session are unchanged. In the other game states the call is rejected by the check of
  the state, which comes first. The bets of the current round come from different
  sessions. None of this holds once a call is received while another waits, or after
  a \<^verbatim>\<open>save()\<close> was rejected: see the last section.
\<close>

lemma duplicate_bet_rejected_in_sequence:
  "(\<forall>r. (gameState (run sha256 newEngine ops) = Betting
          \<or> gameState (run sha256 newEngine ops) = Waiting)
        \<and> currentRound (run sha256 newEngine ops) = Some r
        \<and> sid \<in> betSessionId ` set (activeBets r) \<longrightarrow>
        fst (placeBet sha256 w (run sha256 newEngine ops) sid usd crypto pn)
          = Inl (DuplicateBetError ''You already have a bet placed this round'')
        \<and> currentRound (snd (placeBet sha256 w (run sha256 newEngine ops) sid usd crypto pn)) = Some r
        \<and> sessions (run sha256 newEngine ops) sid \<noteq> None
        \<and> map_option balance
             (sessions (snd (placeBet sha256 w (run sha256 newEngine ops) sid usd crypto pn)) sid)
            = map_option balance (sessions (run sha256 newEngine ops) sid))
   \<and> (gameState (run sha256 newEngine ops) \<noteq> Betting
        \<and> gameState (run sha256 newEngine ops) \<noteq> Waiting \<longrightarrow>
        (\<exists>m. fst (placeBet sha256 w (run sha256 newEngine ops) sid usd crypto pn)
                = Inl (StateError m))
        \<and> currentRound (snd (placeBet sha256 w (run sha256 newEngine ops) sid usd crypto pn))
            = currentRound (run sha256 newEngine ops)
        \<and> sessions (snd (placeBet sha256 w (run sha256 newEngine ops) sid usd crypto pn))
            = sessions (run sha256 newEngine ops))
   \<and> distinct (map betSessionId (gs_activeBets (getCurrentGameState (run sha256 newEngine ops))))"
proof -
  define g where "g = run sha256 newEngine ops"
  have inv: "oneBetPerSession g"
    unfolding g_def by (rule oneBetPerSession_run [OF oneBetPerSession_newEngine])
  have dup: "fst (placeBet sha256 w g sid usd crypto pn)
          = Inl (DuplicateBetError ''You already have a bet placed this round'')
        \<and> currentRound (snd (placeBet sha256 w g sid usd crypto pn)) = Some r
        \<and> sessions g sid \<noteq> None
        \<and> map_option balance (sessions (snd (placeBet sha256 w g sid usd crypto pn)) sid)
            = map_option balance (sessions g sid)"
    if st: "gameState g = Betting \<or> gameState g = Waiting" and rd: "currentRound g = Some r"
      and mem: "sid \<in> betSessionId ` set (activeBets r)" for r
  proof -
    from mem obtain b where b: "b \<in> set (activeBets r)" "betSessionId b = sid" by auto
    with inv rd st obtain s cb where
      s: "sessions g sid = Some s" "currentBet s = Some cb" "roundId cb = oid r"
      unfolding oneBetPerSession_def by blast
    from placeBet_duplicate [OF st rd s, of sha256 w usd crypto pn] s(1)
    show ?thesis by simp
  qed
  have gate: "(\<exists>m. fst (placeBet sha256 w g sid usd crypto pn) = Inl (StateError m))
        \<and> currentRound (snd (placeBet sha256 w g sid usd crypto pn)) = currentRound g
        \<and> sessions (snd (placeBet sha256 w g sid usd crypto pn)) = sessions g"
    if "gameState g \<noteq> Betting" "gameState g \<noteq> Waiting"
    using placeBet_refused_phase [OF that, of sha256 w sid usd crypto pn]
    by (simp add: initialize_keeps)
  have dist: "distinct (map betSessionId (gs_activeBets (getCurrentGameState g)))"
    using inv by (auto simp: oneBetPerSession_def getCurrentGameState_bets split: option.splits)
  show ?thesis
    unfolding g_def [symmetric] using dup gate dist by blast
qed

section \<open>Bets that overlap\<close>

text \<open>
  The two parts of the writes of \<^verbatim>\<open>placeBet\<close>, run with nothing in between on an
  engine that has a round and the session, are the writes of the whole call.
\<close>

lemma placeBet_resume_whole:
  assumes "currentRound g = Some r" and "sessions g sid = Some s"
  shows "placeBet_resume w g held sid usd crypto =
       (case convertUsdToCrypto (w_prices w) usd crypto of
               Inl e \<Rightarrow> (Inl e, g)
             | Inr conversion \<Rightarrow>
                 (Inr (fst (recordBet w g r s sid usd crypto conversion)),
                  snd (recordBet w g r s sid usd crypto conversion)))"
  using assms
  by (simp add: placeBet_resume_def placeBet_afterConversion_def placeBet_afterSave_def
      recordBet_def Let_def split: sum.splits)

text \<open>
  The parts of \<^verbatim>\<open>placeBet\<close>, run with nothing in between, are \<^verbatim>\<open>placeBet\<close>.
\<close>

lemma placeBet_in_two_parts:
  "placeBet sha256 w g sid usd crypto pn =
     (case placeBet_begin sha256 w g sid usd pn of
        (Inl e, g3) \<Rightarrow> (Inl e, g3)
      | (Inr s, g3) \<Rightarrow> placeBet_resume w g3 s sid usd crypto)"
proof (cases "gameState g = Betting \<or> gameState g = Waiting")
  case False
  then have ref: "(gameState (initialize g (w_db w)) \<noteq> Betting
              \<and> gameState (initialize g (w_db w)) \<noteq> Waiting) = True"
    by (auto simp: initialize_keeps)
  from False show ?thesis
    by (simp add: placeBet_refused_phase placeBet_begin_def Let_def ref initialize_keeps)
next
  case True
  from placeBet_allowed [OF True, of sha256 w sid pn usd crypto]
  obtain r g2 s g3 where
    1: "ensureRound sha256 w (initialize g (w_db w)) = (r, g2)" and
    2: "getSession g2 (w_now w) sid pn = (s, g3)" and
    3: "placeBet sha256 w g sid usd crypto pn =
       (if (case currentBet s of None \<Rightarrow> False | Some cb \<Rightarrow> roundId cb = oid r)
        then (Inl (DuplicateBetError ''You already have a bet placed this round''), g3)
        else if balance s < usd
        then (Inl (InsufficientFundsError (balance s) usd), g3)
        else case convertUsdToCrypto (w_prices w) usd crypto of
               Inl e \<Rightarrow> (Inl e, g3)
             | Inr conversion \<Rightarrow>
                 (Inr (fst (recordBet w g3 r s sid usd crypto conversion)),
                  snd (recordBet w g3 r s sid usd crypto conversion)))"
    by blast
  have ok: "(gameState (initialize g (w_db w)) \<noteq> Betting
              \<and> gameState (initialize g (w_db w)) \<noteq> Waiting) = False"
    using True by (auto simp: initialize_keeps)
  have b: "placeBet_begin sha256 w g sid usd pn =
       (if (case currentBet s of None \<Rightarrow> False | Some cb \<Rightarrow> roundId cb = oid r)
        then (Inl (DuplicateBetError ''You already have a bet placed this round''), g3)
        else if balance s < usd
        then (Inl (InsufficientFundsError (balance s) usd), g3)
        else (Inr s, g3))"
    unfolding placeBet_begin_def Let_def ok by (simp add: 1 2)
  have rd3: "currentRound g3 = Some r"
    using getSession_effect(2) [of g2 "w_now w" sid pn]
          ensureRound_effect(1) [of sha256 w "initialize g (w_db w)"] 1 2 by simp
  have s3: "sessions g3 sid = Some s"
    using getSession_effect(1) [of g2 "w_now w" sid pn] 2 by simp
  have r: "placeBet_resume w g3 s sid usd crypto =
       (case convertUsdToCrypto (w_prices w) usd crypto of
               Inl e \<Rightarrow> (Inl e, g3)
             | Inr conversion \<Rightarrow>
                 (Inr (fst (recordBet w g3 r s sid usd crypto conversion)),
                  snd (recordBet w g3 r s sid usd crypto conversion)))"
    by (rule placeBet_resume_whole [OF rd3 s3])
  show ?thesis by (simp add: 3 b r)
qed

text \<open>
  C2 fails when two bets overlap. A new player (balance 1000) places two bets of 600,
  the second received while the first waits for its price conversion: each passes the
  balance check of line 139 before either reaches the debit of line 161. Both calls
  succeed, the round holds two bets of that session, and the balance ends at -200.
\<close>

theorem overlapping_bets_overdraw:
  "(\<exists>res1 res2 g. overlappingPlaceBets fixedDigest sampleWorld sampleWorld readyEngine
                     ''player-1'' 600 600 ''BTC'' = (Inr res1, Inr res2, g)
       \<and> map_option balance (sessions g ''player-1'') = Some (- 200)
       \<and> map_option (map betSessionId \<circ> activeBets) (currentRound g)
           = Some [''player-1'', ''player-1''])"
  by (simp add: overlappingPlaceBets_def readyEngine_def Let_def placeBet_def placeBet_begin_def
      placeBet_resume_def placeBet_afterConversion_def placeBet_afterSave_def recordBet_def
      ensureRound_def newEngine_def initialize_def sampleWorld_def samplePrices_def
      createNewRound_def getSession_def givenName_def convertUsdToCrypto_def cryptoSymbolOf_def
      cryptoMapping_def priceOf_def)

text \<open>
  C4 fails for a session whose bet is in the round but not yet on the session. A new
  player stakes 100: the bet is appended to the round at line 147, and the current bet
  of the session, which is what the duplicate check of line 134 reads, is set only at
  line 163, after the wait for \<^verbatim>\<open>save()\<close>. The engine in between (\<open>g1\<close>) is the one
  other calls see during that wait, and the one the call leaves for good when the
  \<^verbatim>\<open>save()\<close> is rejected. On it a second \<^verbatim>\<open>placeBet\<close> of the same session, of 50, is
  not rejected as a duplicate: it succeeds, the round then holds two bets of that
  session with a staked total of 150, and \<^verbatim>\<open>totalPlayers\<close> is 1. When the first call
  then resumes, both have succeeded and the balance is 850.
\<close>

theorem second_bet_accepted_beside_unsaved_bet:
  "(\<exists>held conversion g1 res2 g2 res1 g3.
       placeBet_untilSave fixedDigest sampleWorld readyEngine ''player-1'' 100 ''BTC'' None
         = (Inr (held, conversion), g1)
     \<and> placeBet_saveRejected fixedDigest sampleWorld readyEngine ''player-1'' 100 ''BTC'' None
         = (Inl WriteError, g1)
     \<and> map_option (map betSessionId \<circ> activeBets) (currentRound g1) = Some [''player-1'']
     \<and> map_option currentBet (sessions g1 ''player-1'') = Some None
     \<and> map_option balance (sessions g1 ''player-1'') = Some 1000
     \<and> placeBet fixedDigest sampleWorld g1 ''player-1'' 50 ''BTC'' None = (Inr res2, g2)
     \<and> map_option (map betSessionId \<circ> activeBets) (currentRound g2)
         = Some [''player-1'', ''player-1'']
     \<and> map_option roundTotalBets (currentRound g2) = Some 150
     \<and> map_option totalPlayers (currentRound g2) = Some 1
     \<and> map_option balance (sessions g2 ''player-1'') = Some 950
     \<and> placeBetWhileSaving fixedDigest sampleWorld sampleWorld readyEngine
            ''player-1'' 100 50 ''BTC'' = (Inr res1, Inr res2, g3)
     \<and> map_option (map betSessionId \<circ> activeBets) (currentRound g3)
         = Some [''player-1'', ''player-1'']
     \<and> map_option balance (sessions g3 ''player-1'') = Some 850)"
  by (simp add: placeBetWhileSaving_def placeBet_saveRejected_def placeBet_untilSave_def
      readyEngine_def Let_def placeBet_def placeBet_begin_def
      placeBet_afterConversion_def placeBet_afterSave_def recordBet_def
      ensureRound_def newEngine_def initialize_def sampleWorld_def samplePrices_def
      createNewRound_def getSession_def givenName_def convertUsdToCrypto_def cryptoSymbolOf_def
      cryptoMapping_def priceOf_def)
end
